theory Spec2Isabelle
  imports Complex_Main "HOL-Library.Word"
begin

unbundle bit_operations_syntax

section \<open>Data model of the AD9910 driver\<close>

text \<open>
  The driver (artiq/coredevice/ad9910.py) is kernel code: its integers are
  two's complement machine integers. \<open>numpy.int32\<close> is a \<open>32 word\<close>, the
  timeline cursor returned by \<open>now_mu()\<close> is a \<open>64 word\<close>; \<open>+\<close>, \<open>-\<close> and
  \<open>*\<close> wrap, \<open><<\<close> is \<open>push_bit\<close>, \<open>>>\<close> on a signed value is the arithmetic
  shift \<open>signed_drop_bit\<close>, comparisons with a sign read the word through
  \<open>sint\<close>, \<open>int32(x)\<close> of a 64-bit value keeps its low 32 bits (\<open>ucast\<close>) and
  \<open>int64(x)\<close> of a 32-bit value sign-extends (\<open>scast\<close>).
\<close>

type_synonym int32 = "32 word"
type_synonym int64 = "64 word"

text \<open>
  What the driver does to its collaborators, in program order. The SPI bus
  (\<open>self.bus\<close>), the CPLD status read and the IO_UPDATE line
  (\<open>self.cpld\<close>) are not part of the driver; each call to them is recorded.
\<close>

datatype event =
    SetConfig int32 int32 int32 int32  \<comment> \<open>\<open>bus.set_config_mu(flags, length, div, cs)\<close>\<close>
  | BusWrite int32                     \<comment> \<open>\<open>bus.write(data)\<close>\<close>
  | BusRead                            \<comment> \<open>\<open>bus.read()\<close>\<close>
  | StaRead                            \<comment> \<open>\<open>cpld.sta_read()\<close>\<close>
  | IoUpdate int64 int64               \<comment> \<open>\<open>cpld.io_update\<close> pulse: cursor at the rising edge, width in mu\<close>

text \<open>The exceptions that the embedded operations raise.\<close>

datatype error =
    AssertionError           \<comment> \<open>a failing \<open>assert\<close>\<close>
  | ZeroDivisionError        \<comment> \<open>float division by zero\<close>
  | ShiftCountError          \<comment> \<open>ValueError of a shift by a negative amount\<close>
  | NoValidWindow            \<comment> \<open>ValueError("no valid window/delay")\<close>
  | NoAlignmentEdge          \<comment> \<open>ValueError("no IO_UPDATE-SYNC_CLK alignment edge found")\<close>

text \<open>
  The collaborators are parameters of the model: the constants of the
  \<open>spi2\<close> and \<open>urukul\<close> modules and \<open>urukul_sta_smp_err\<close>, the time by
  which each bus operation moves the timeline cursor, the words the hardware
  answers (each may depend on everything done so far), the conversion of
  seconds to machine units (argument in microseconds), the reference clock
  of the CPLD and the period of the core device, and the host's floating
  point product and quotient used by the constructor (a float is a real
  number; what a product or quotient rounds to is left open).
\<close>

record extern =
  SPI_CONFIG :: int32
  SPI_END :: int32
  SPI_INPUT :: int32
  SPIT_DDS_WR :: int32
  SPIT_DDS_RD :: int32
  bus_time :: "event list \<Rightarrow> event \<Rightarrow> int64"
  bus_read_val :: "event list \<Rightarrow> int32"
  sta_read_val :: "event list \<Rightarrow> int32"
  urukul_sta_smp_err :: "int32 \<Rightarrow> int32"
  us_to_mu :: "nat \<Rightarrow> int64"
  refclk :: real
  ref_period :: real
  fmul :: "real \<Rightarrow> real \<Rightarrow> real"
  fdiv :: "real \<Rightarrow> real \<Rightarrow> real"

text \<open>The fields of an \<open>AD9910\<close> object set by \<open>__init__\<close> (kernel invariants).\<close>

record ad9910 =
  cpld :: extern
  chip_select :: int
  pll_n :: int
  pll_cp :: int
  pll_vco :: int
  ftw_per_hz :: real
  sysclk_per_mu :: int
  sync_delay_seed :: int
  io_update_delay :: int

text \<open>
  The mutable state: the timeline cursor, the recorded operations (oldest
  first) and the default phase mode \<open>self.phase_mode\<close>.
\<close>

record state =
  now :: int64
  trace :: "event list"
  phase_mode :: int32

definition PHASE_MODE_DEFAULT :: int32 where "PHASE_MODE_DEFAULT = - 1"
definition PHASE_MODE_CONTINUOUS :: int32 where "PHASE_MODE_CONTINUOUS = 0"
definition PHASE_MODE_ABSOLUTE :: int32 where "PHASE_MODE_ABSOLUTE = 1"
definition PHASE_MODE_TRACKING :: int32 where "PHASE_MODE_TRACKING = 2"

definition AD9910_REG_CFR1 :: int32 where "AD9910_REG_CFR1 = 0x00"
definition AD9910_REG_CFR2 :: int32 where "AD9910_REG_CFR2 = 0x01"
definition AD9910_REG_FTW :: int32 where "AD9910_REG_FTW = 0x07"
definition AD9910_REG_MSYNC :: int32 where "AD9910_REG_MSYNC = 0x0A"
definition AD9910_REG_DRAMPL :: int32 where "AD9910_REG_DRAMPL = 0x0B"
definition AD9910_REG_DRAMPS :: int32 where "AD9910_REG_DRAMPS = 0x0C"
definition AD9910_REG_DRAMPR :: int32 where "AD9910_REG_DRAMPR = 0x0D"
definition AD9910_REG_PR0 :: int32 where "AD9910_REG_PR0 = 0x0E"

section \<open>Timeline and collaborator primitives\<close>

definition at_mu :: "int64 \<Rightarrow> state \<Rightarrow> state" where
  "at_mu t st = st\<lparr>now := t\<rparr>"

definition delay_mu :: "int64 \<Rightarrow> state \<Rightarrow> state" where
  "delay_mu d st = st\<lparr>now := now st + d\<rparr>"

definition delay_us :: "ad9910 \<Rightarrow> nat \<Rightarrow> state \<Rightarrow> state" where
  "delay_us self n st = delay_mu (us_to_mu (cpld self) n) st"

text \<open>A bus operation is recorded and moves the cursor by the bus's time for it.\<close>

definition bus_op :: "ad9910 \<Rightarrow> event \<Rightarrow> state \<Rightarrow> state" where
  "bus_op self ev st =
     st\<lparr>now := now st + bus_time (cpld self) (trace st) ev, trace := trace st @ [ev]\<rparr>"

definition bus_set_config_mu :: "ad9910 \<Rightarrow> int32 \<Rightarrow> int32 \<Rightarrow> int32 \<Rightarrow> int32 \<Rightarrow> state \<Rightarrow> state" where
  "bus_set_config_mu self flags len dv cs st = bus_op self (SetConfig flags len dv cs) st"

definition bus_write :: "ad9910 \<Rightarrow> int32 \<Rightarrow> state \<Rightarrow> state" where
  "bus_write self data st = bus_op self (BusWrite data) st"

definition bus_read :: "ad9910 \<Rightarrow> state \<Rightarrow> int32 \<times> state" where
  "bus_read self st = (bus_read_val (cpld self) (trace st), bus_op self BusRead st)"

definition sta_read :: "ad9910 \<Rightarrow> state \<Rightarrow> int32 \<times> state" where
  "sta_read self st = (sta_read_val (cpld self) (trace st), bus_op self StaRead st)"

text \<open>\<open>TTLOut.pulse_mu(d)\<close>: on, \<open>delay_mu(d)\<close>, off.\<close>

definition io_update_pulse_mu :: "int64 \<Rightarrow> state \<Rightarrow> state" where
  "io_update_pulse_mu d st = st\<lparr>now := now st + d, trace := trace st @ [IoUpdate (now st) d]\<rparr>"

definition io_update_pulse_us :: "ad9910 \<Rightarrow> nat \<Rightarrow> state \<Rightarrow> state" where
  "io_update_pulse_us self n st = io_update_pulse_mu (us_to_mu (cpld self) n) st"

section \<open>Register framing\<close>

definition write32 :: "ad9910 \<Rightarrow> int32 \<Rightarrow> int32 \<Rightarrow> state \<Rightarrow> state" where
  "write32 self addr data st =
    (let x = cpld self;
         cs = word_of_int (chip_select self);
         st = bus_set_config_mu self (SPI_CONFIG x) 8 (SPIT_DDS_WR x) cs st;
         st = bus_write self (push_bit 24 addr) st;
         st = bus_set_config_mu self (SPI_CONFIG x OR SPI_END x) 32 (SPIT_DDS_WR x) cs st
     in bus_write self data st)"

definition read32 :: "ad9910 \<Rightarrow> int32 \<Rightarrow> state \<Rightarrow> int32 \<times> state" where
  "read32 self addr st =
    (let x = cpld self;
         cs = word_of_int (chip_select self);
         st = bus_set_config_mu self (SPI_CONFIG x) 8 (SPIT_DDS_WR x) cs st;
         st = bus_write self (push_bit 24 (addr OR 0x80)) st;
         st = bus_set_config_mu self (SPI_CONFIG x OR SPI_END x OR SPI_INPUT x) 32
                (SPIT_DDS_RD x) cs st;
         st = bus_write self 0 st
     in bus_read self st)"

definition write64 :: "ad9910 \<Rightarrow> int32 \<Rightarrow> int32 \<Rightarrow> int32 \<Rightarrow> state \<Rightarrow> state" where
  "write64 self addr data_high data_low st =
    (let x = cpld self;
         cs = word_of_int (chip_select self);
         st = bus_set_config_mu self (SPI_CONFIG x) 8 (SPIT_DDS_WR x) cs st;
         st = bus_write self (push_bit 24 addr) st;
         st = bus_set_config_mu self (SPI_CONFIG x) 32 (SPIT_DDS_WR x) cs st;
         st = bus_write self data_high st;
         st = bus_set_config_mu self (SPI_CONFIG x OR SPI_END x) 32 (SPIT_DDS_WR x) cs st
     in bus_write self data_low st)"

section \<open>Phase modes: \<open>set_mu\<close>\<close>

definition set_phase_mode :: "int32 \<Rightarrow> state \<Rightarrow> state" where
  "set_phase_mode pm st = st\<lparr>phase_mode := pm\<rparr>"

text \<open>
  \<open>set_mu\<close> returns the phase offset word it used. Its parameter
  \<open>phase_mode\<close> is called \<open>pm\<close> here, the name being that of the object's
  field; \<open>ftw\<close>, \<open>pow\<close> and \<open>asf\<close> are 32-bit integers and \<open>ref_time\<close>
  is a 64-bit time stamp, negative when no reference time is given.
\<close>

definition set_mu ::
  "ad9910 \<Rightarrow> int32 \<Rightarrow> int32 \<Rightarrow> int32 \<Rightarrow> int32 \<Rightarrow> int64 \<Rightarrow> state \<Rightarrow> int32 \<times> state" where
  "set_mu self ftw pow asf pm ref_time st =
    (let pm = (if pm = PHASE_MODE_DEFAULT then phase_mode st else pm);
         st = at_mu (now st AND NOT 0xf) st;
         (pow, st) =
           (if pm \<noteq> PHASE_MODE_CONTINUOUS then
              let st = write32 self AD9910_REG_CFR1 0x00002002 st;
                  ref_time = (if pm = PHASE_MODE_TRACKING \<and> sint ref_time < 0
                              then 0 else ref_time)
              in if 0 \<le> sint ref_time then
                   let dt = (ucast (now st) :: int32) - ucast ref_time
                   in (pow + signed_drop_bit 16
                               (dt * ftw * word_of_int (sysclk_per_mu self)), st)
                 else (pow, st)
            else (pow, st));
         st = write64 self AD9910_REG_PR0 (push_bit 16 asf OR pow) ftw st;
         st = delay_mu (word_of_int (io_update_delay self)) st;
         st = io_update_pulse_mu 8 st;
         st = at_mu (now st AND NOT 0xf) st;
         st = (if pm \<noteq> PHASE_MODE_CONTINUOUS
               then write32 self AD9910_REG_CFR1 0x00000002 st else st)
     in (pow, st))"

section \<open>The register-level view of a trace\<close>

text \<open>
  The AD9910 serial protocol: an 8-bit transfer is the instruction byte
  (register address in the top byte of the word written, bit 7 of the byte
  the read flag), the 32-bit transfers after it are the data words of that
  register. \<open>reg_trace\<close> reads a recorded bus trace as register operations
  and update pulses.
\<close>

datatype reg_op =
    RegWrite32 int32 int32
  | RegWrite64 int32 int32 int32
  | RegRead32 int32
  | UpdatePulse int64 int64
  | StatusRead
  | Unframed "int32 list"

fun frame :: "int32 list \<Rightarrow> reg_op list" where
  "frame [] = []"
| "frame [a, d] =
     [if bit a 31 then RegRead32 (drop_bit 24 a AND 0x7f) else RegWrite32 (drop_bit 24 a) d]"
| "frame [a, h, l] = [RegWrite64 (drop_bit 24 a) h l]"
| "frame ws = [Unframed ws]"

fun frames :: "int32 \<Rightarrow> int32 list \<Rightarrow> event list \<Rightarrow> reg_op list" where
  "frames l acc [] = frame acc"
| "frames l acc (SetConfig f l' d c # es) = frames l' acc es"
| "frames l acc (BusWrite w # es) =
     (if l = 8 then frame acc @ frames l [w] es else frames l (acc @ [w]) es)"
| "frames l acc (BusRead # es) = frames l acc es"
| "frames l acc (StaRead # es) = frame acc @ StatusRead # frames l [] es"
| "frames l acc (IoUpdate t d # es) = frame acc @ UpdatePulse t d # frames l [] es"

definition reg_trace :: "event list \<Rightarrow> reg_op list" where
  "reg_trace es = frames 0 [] es"

text \<open>The operations a call added to the trace.\<close>

definition emitted :: "state \<Rightarrow> state \<Rightarrow> event list" where
  "emitted st st' = drop (length (trace st)) (trace st')"

text \<open>An arm write sets the auto-clear bit (bit 13) of CFR1, a disarm write clears it.\<close>

definition is_cfr1_write :: "reg_op \<Rightarrow> bool" where
  "is_cfr1_write r = (case r of RegWrite32 a d \<Rightarrow> a = AD9910_REG_CFR1 | _ \<Rightarrow> False)"

definition is_arm :: "reg_op \<Rightarrow> bool" where
  "is_arm r = (case r of RegWrite32 a d \<Rightarrow> a = AD9910_REG_CFR1 \<and> bit d 13 | _ \<Rightarrow> False)"

definition is_disarm :: "reg_op \<Rightarrow> bool" where
  "is_disarm r = (case r of RegWrite32 a d \<Rightarrow> a = AD9910_REG_CFR1 \<and> \<not> bit d 13 | _ \<Rightarrow> False)"

definition is_pulse :: "reg_op \<Rightarrow> bool" where
  "is_pulse r = (case r of UpdatePulse t d \<Rightarrow> True | _ \<Rightarrow> False)"

definition is_reg_write :: "reg_op \<Rightarrow> bool" where
  "is_reg_write r = (case r of RegWrite32 a d \<Rightarrow> True | RegWrite64 a h l \<Rightarrow> True | _ \<Rightarrow> False)"

section \<open>SYNC_IN delay tuning\<close>

definition set_sync :: "ad9910 \<Rightarrow> int32 \<Rightarrow> int32 \<Rightarrow> state \<Rightarrow> state" where
  "set_sync self in_delay window st =
     write32 self AD9910_REG_MSYNC
       (push_bit 28 window OR push_bit 27 1 OR push_bit 26 0 OR push_bit 25 0 OR
        push_bit 18 0 OR push_bit 11 0 OR push_bit 3 in_delay) st"

definition clear_smp_err :: "ad9910 \<Rightarrow> state \<Rightarrow> state" where
  "clear_smp_err self st =
    (let st = write32 self AD9910_REG_CFR2 0x01010020 st;
         st = io_update_pulse_us self 1 st;
         st = write32 self AD9910_REG_CFR2 0x01010000 st
     in io_update_pulse_us self 1 st)"

text \<open>
  The inner loop \<open>for in_delay in range(max_delay)\<close>, over the indices still
  to run (the parameter \<open>sync_delay_seed\<close> is called \<open>seed\<close>). \<open>Inr None\<close>: the loop ran to its end; \<open>Inr (Some r)\<close>: it returned
  \<open>r\<close>. \<open>err >> (self.chip_select - 4)\<close> raises for a negative shift count.
\<close>

fun tune_sync_delay_taps ::
  "ad9910 \<Rightarrow> int32 \<Rightarrow> int32 \<Rightarrow> int32 \<Rightarrow> nat list \<Rightarrow> state
     \<Rightarrow> (error + (int32 \<times> int32) option) \<times> state" where
  "tune_sync_delay_taps self seed min_window window [] st = (Inr None, st)"
| "tune_sync_delay_taps self seed min_window window (i # is) st =
    (let in_delay = (of_nat i :: int32);
         in_delay = (if in_delay AND 1 \<noteq> 0 then - in_delay else in_delay);
         in_delay = seed + signed_drop_bit 1 in_delay
     in if sint in_delay < 0 \<or> 31 < sint in_delay
        then tune_sync_delay_taps self seed min_window window is st
        else
          let st = set_sync self in_delay window st;
              st = clear_smp_err self st;
              (sta, st) = sta_read self st;
              err = urukul_sta_smp_err (cpld self) sta;
              st = delay_us self 40 st
          in if chip_select self - 4 < 0 then (Inl ShiftCountError, st)
             else if signed_drop_bit (nat (chip_select self - 4)) err AND 1 = 0 then
               let window = window - min_window;
                   st = set_sync self in_delay window st;
                   st = clear_smp_err self st;
                   st = delay_us self 40 st
               in (Inr (Some (in_delay, window)), st)
             else tune_sync_delay_taps self seed min_window window is st)"

text \<open>The outer loop \<open>for window in range(max_window - min_window + 1)\<close>.\<close>

fun tune_sync_delay_windows ::
  "ad9910 \<Rightarrow> int32 \<Rightarrow> nat \<Rightarrow> int32 \<Rightarrow> int32 \<Rightarrow> nat list \<Rightarrow> state
     \<Rightarrow> (error + (int32 \<times> int32) option) \<times> state" where
  "tune_sync_delay_windows self seed max_delay max_window min_window [] st =
     (Inr None, st)"
| "tune_sync_delay_windows self seed max_delay max_window min_window (w # ws) st =
    (let window = max_window - of_nat w
     in case tune_sync_delay_taps self seed min_window window [0..<max_delay] st of
          (Inr None, st') \<Rightarrow>
            tune_sync_delay_windows self seed max_delay max_window min_window ws st'
        | r \<Rightarrow> r)"

definition tune_sync_delay ::
  "ad9910 \<Rightarrow> int32 \<Rightarrow> state \<Rightarrow> (error + int32 \<times> int32) \<times> state" where
  "tune_sync_delay self seed st =
    (let dt = (14 :: nat);
         max_delay = dt;
         max_window = dt div 4 + 1;
         min_window = (1 :: nat)
     in case tune_sync_delay_windows self seed max_delay (of_nat max_window)
               (of_nat min_window) [0..<max_window - min_window + 1] st of
          (Inr (Some r), st') \<Rightarrow> (Inr r, st')
        | (Inr None, st') \<Rightarrow> (Inl NoValidWindow, st')
        | (Inl e, st') \<Rightarrow> (Inl e, st'))"

section \<open>IO_UPDATE alignment\<close>

definition measure_io_update_alignment :: "ad9910 \<Rightarrow> int32 \<Rightarrow> state \<Rightarrow> int32 \<times> state" where
  "measure_io_update_alignment self io_up_delay st =
    (let st = write32 self AD9910_REG_CFR1 0x0000c002 st;
         st = write32 self AD9910_REG_CFR2 0x01090000 st;
         st = write64 self AD9910_REG_DRAMPL (- 1) 0 st;
         st = write32 self AD9910_REG_DRAMPR 0x00010000 st;
         st = write64 self AD9910_REG_DRAMPS (- 1) 0 st;
         st = at_mu ((now st + 0x10) AND NOT 0xf) st;
         st = io_update_pulse_mu 8 st;
         st = write32 self AD9910_REG_CFR1 0x00000002 st;
         st = write64 self AD9910_REG_DRAMPS 0 0 st;
         st = at_mu (((now st + 0x10) AND NOT 0xf) + scast io_up_delay) st;
         st = io_update_pulse_mu (scast (32 - io_up_delay)) st;
         (ftw, st) = read32 self AD9910_REG_FTW st;
         st = delay_us self 100 st;
         st = write32 self AD9910_REG_CFR2 0x01010000 st;
         st = io_update_pulse_mu 8 st
     in (ftw AND 1, st))"

text \<open>The loop \<open>for i in range(max_delay - 1)\<close> of \<open>tune_io_update_delay\<close>.\<close>

fun tune_io_update_delay_scan ::
  "ad9910 \<Rightarrow> int32 \<Rightarrow> int32 \<Rightarrow> int32 \<Rightarrow> int32 \<Rightarrow> nat list \<Rightarrow> state
     \<Rightarrow> int32 option \<times> state" where
  "tune_io_update_delay_scan self period max_delay d0 t0 [] st = (None, st)"
| "tune_io_update_delay_scan self period max_delay d0 t0 (i # is) st =
    (let (t, st) = measure_io_update_alignment self
                     ((d0 + of_nat i + 1) AND (max_delay - 1)) st
     in if t \<noteq> t0
        then (Some ((d0 + of_nat i + word_of_int (sint period div 2)) AND (period - 1)), st)
        else tune_io_update_delay_scan self period max_delay d0 t0 is st)"

definition tune_io_update_delay :: "ad9910 \<Rightarrow> state \<Rightarrow> (error + int32) \<times> state" where
  "tune_io_update_delay self st =
    (let period = (4 :: int32);
         max_delay = (8 :: int32);
         d0 = (word_of_int (io_update_delay self) :: int32);
         (t0, st) = measure_io_update_alignment self d0 st
     in case tune_io_update_delay_scan self period max_delay d0 t0
               [0..<nat (sint max_delay - 1)] st of
          (Some r, st') \<Rightarrow> (Inr r, st')
        | (None, st') \<Rightarrow> (Inl NoAlignmentEdge, st'))"

section \<open>Construction\<close>

text \<open>Python's \<open>round\<close> of a float: to the nearest integer, ties to the even one.\<close>

definition py_round :: "real \<Rightarrow> int" where
  "py_round x =
    (let f = \<lfloor>x\<rfloor>; r = x - of_int f
     in if r < 1 / 2 then f else if 1 / 2 < r then f + 1 else if even f then f else f + 1)"

definition vco_table :: "(real \<times> real) list" where
  "vco_table = [(370, 510), (420, 590), (500, 700), (600, 880), (700, 950), (820, 1150)]"

text \<open>
  \<open>__init__\<close>, with the CPLD that \<open>dmgr.get(cpld_device)\<close> returns as its
  first argument (the optional RF switch device is looked up and stored
  without any check, and is left out). Each \<open>assert\<close> that fails ends the
  construction with
  \<open>AssertionError\<close>; \<open>(1 << 32)/sysclk\<close> raises \<open>ZeroDivisionError\<close> for a
  zero \<open>sysclk\<close>. A successful construction sets the object's default phase
  mode.
\<close>

definition AD9910_init ::
  "extern \<Rightarrow> int \<Rightarrow> int \<Rightarrow> int \<Rightarrow> int \<Rightarrow> int \<Rightarrow> int \<Rightarrow> state \<Rightarrow> (error + ad9910) \<times> state" where
  "AD9910_init x chip_select' pll_n' pll_cp' pll_vco' sync_delay_seed' io_update_delay' st =
    (if \<not> (3 \<le> chip_select' \<and> chip_select' \<le> 7) then (Inl AssertionError, st)
     else if \<not> (12 \<le> pll_n' \<and> pll_n' \<le> 127) then (Inl AssertionError, st)
     else if \<not> fdiv x (refclk x) 4 \<le> 60000000 then (Inl AssertionError, st)
     else
       let sysclk = fdiv x (fmul x (refclk x) (of_int pll_n')) 4
       in if \<not> sysclk \<le> 1000000000 then (Inl AssertionError, st)
          else if sysclk = 0 then (Inl ZeroDivisionError, st)
          else
            let ftw_per_hz' = fdiv x (2 ^ 32) sysclk;
                sysclk_per_mu' = py_round (fmul x sysclk (ref_period x))
            in if of_int sysclk_per_mu' \<noteq> fmul x sysclk (ref_period x)
               then (Inl AssertionError, st)
               else if \<not> (0 \<le> pll_vco' \<and> pll_vco' \<le> 5) then (Inl AssertionError, st)
               else
                 let (vco_min, vco_max) = vco_table ! nat pll_vco'
                 in if \<not> (vco_min \<le> fdiv x sysclk 1000000 \<and> fdiv x sysclk 1000000 \<le> vco_max)
                    then (Inl AssertionError, st)
                    else if \<not> (0 \<le> pll_cp' \<and> pll_cp' \<le> 7) then (Inl AssertionError, st)
                    else (Inr \<lparr>cpld = x, chip_select = chip_select', pll_n = pll_n',
                                pll_cp = pll_cp', pll_vco = pll_vco', ftw_per_hz = ftw_per_hz',
                                sysclk_per_mu = sysclk_per_mu',
                                sync_delay_seed = sync_delay_seed',
                                io_update_delay = io_update_delay'\<rparr>,
                          st\<lparr>phase_mode := PHASE_MODE_CONTINUOUS\<rparr>))"

section \<open>Notions used to state the properties\<close>

text \<open>The bus operations of one \<open>write32\<close> and of one \<open>write64\<close>.\<close>

definition write32_events :: "ad9910 \<Rightarrow> int32 \<Rightarrow> int32 \<Rightarrow> event list" where
  "write32_events self addr data =
     [SetConfig (SPI_CONFIG (cpld self)) 8 (SPIT_DDS_WR (cpld self))
        (word_of_int (chip_select self)),
      BusWrite (push_bit 24 addr),
      SetConfig (SPI_CONFIG (cpld self) OR SPI_END (cpld self)) 32 (SPIT_DDS_WR (cpld self))
        (word_of_int (chip_select self)),
      BusWrite data]"

definition write64_events :: "ad9910 \<Rightarrow> int32 \<Rightarrow> int32 \<Rightarrow> int32 \<Rightarrow> event list" where
  "write64_events self addr hi lo =
     [SetConfig (SPI_CONFIG (cpld self)) 8 (SPIT_DDS_WR (cpld self))
        (word_of_int (chip_select self)),
      BusWrite (push_bit 24 addr),
      SetConfig (SPI_CONFIG (cpld self)) 32 (SPIT_DDS_WR (cpld self))
        (word_of_int (chip_select self)),
      BusWrite hi,
      SetConfig (SPI_CONFIG (cpld self) OR SPI_END (cpld self)) 32 (SPIT_DDS_WR (cpld self))
        (word_of_int (chip_select self)),
      BusWrite lo]"

text \<open>
  The value of \<open>now_mu()\<close> in \<open>dt = int32(now_mu()) - int32(ref_time)\<close> of
  \<open>set_mu\<close>: the cursor after the alignment to the coarse clock and the
  arming write.
\<close>

definition dt_time :: "ad9910 \<Rightarrow> state \<Rightarrow> int64" where
  "dt_time self st =
     now (write32 self AD9910_REG_CFR1 0x00002002 (at_mu (now st AND NOT 0xf) st))"

text \<open>The fiducial of a Tracking call: time zero when no reference time is given.\<close>

definition fiducial :: "int64 \<Rightarrow> int64" where
  "fiducial ref_time = (if sint ref_time < 0 then 0 else ref_time)"

section \<open>A concrete channel for the examples\<close>

text \<open>
  A bus that takes no time and answers zero, a 125 MHz reference clock and
  a core device with 1 ns machine units; channel 0 of the board (chip select
  4) with the PLL at 32 \<times> 125 MHz / 4 = 1 GHz.
\<close>

definition demo_extern :: extern where
  "demo_extern =
    \<lparr>SPI_CONFIG = 8, SPI_END = 2, SPI_INPUT = 4, SPIT_DDS_WR = 2, SPIT_DDS_RD = 16,
     bus_time = (\<lambda>h e. 0), bus_read_val = (\<lambda>h. 0), sta_read_val = (\<lambda>h. 0),
     urukul_sta_smp_err = (\<lambda>sta. drop_bit 4 sta AND 0xf), us_to_mu = (\<lambda>n. of_nat n * 1000),
     refclk = 125000000, ref_period = 1 / 1000000000, fmul = (*), fdiv = (/)\<rparr>"

definition demo_channel :: ad9910 where
  "demo_channel =
    \<lparr>cpld = demo_extern, chip_select = 4, pll_n = 32, pll_cp = 7, pll_vco = 5,
     ftw_per_hz = 2 ^ 32 / 1000000000, sysclk_per_mu = 1, sync_delay_seed = - 1,
     io_update_delay = 0\<rparr>"

definition demo_state :: state where
  "demo_state = \<lparr>now = 16, trace = [], phase_mode = 0\<rparr>"

section \<open>A synthetic alignment probe\<close>

text \<open>
  A device whose FTW readback depends only on the delay of the last
  realignment pulse, of width \<open>32 - io_up_delay\<close>: bit 0 for delays in
  \<open>[0,k)\<close> and bit 1 for delays in \<open>[k,4)\<close>, with period 4.
\<close>

fun last_pulse_width :: "event list \<Rightarrow> int64 option" where
  "last_pulse_width [] = None"
| "last_pulse_width (IoUpdate t d # es) = Some d"
| "last_pulse_width (e # es) = last_pulse_width es"

definition edge_extern :: "nat \<Rightarrow> extern" where
  "edge_extern k = demo_extern
     \<lparr>bus_read_val := (\<lambda>h. case last_pulse_width (rev h) of
          None \<Rightarrow> 0
        | Some d \<Rightarrow> if unat (32 - ucast d :: int32) mod 4 < k then 0 else 1)\<rparr>"

definition edge_channel :: "nat \<Rightarrow> ad9910" where
  "edge_channel k = demo_channel\<lparr>cpld := edge_extern k\<rparr>"

section \<open>The SYNC_IN delay scan, as specified\<close>

text \<open>
  The scan order in the words of the specification: the offsets from the
  seed alternate outwards, \<open>0, -1, +1, -2, +2, \<dots>\<close>; a tap outside
  \<open>[0,31]\<close> is skipped; the windows run from 4 down to 1, each with all
  its taps.
\<close>

definition tap_offset :: "nat \<Rightarrow> int32" where
  "tap_offset i = (if odd i then - of_nat ((i + 1) div 2) else of_nat (i div 2))"

definition tap_in_range :: "int32 \<Rightarrow> bool" where
  "tap_in_range d = (0 \<le> sint d \<and> sint d \<le> 31)"

definition scan_taps :: "int32 \<Rightarrow> int32 list" where
  "scan_taps seed = filter tap_in_range (map (\<lambda>i. seed + tap_offset i) [0..<14])"

definition scan_order :: "int32 \<Rightarrow> (int32 \<times> int32) list" where
  "scan_order seed = concat (map (\<lambda>w. map (\<lambda>d. (d, w)) (scan_taps seed)) [4, 3, 2, 1])"

text \<open>
  The word of the sync register for a tap and a window: the window from bit
  28, the receiver enable bit 27, the tap from bit 3.
\<close>

definition sync_word :: "int32 \<Rightarrow> int32 \<Rightarrow> int32" where
  "sync_word in_delay window = push_bit 28 window OR push_bit 27 1 OR push_bit 3 in_delay"

text \<open>
  The flag of this channel in a status word, \<open>(err >> (chip_select - 4)) & 1\<close>:
  bit \<open>chip_select - 4\<close> of the sample error field. With \<open>chip_select = 3\<close>
  the shift count is negative and the shift raises.
\<close>

definition smp_err_flag :: "ad9910 \<Rightarrow> int32 \<Rightarrow> error + bool" where
  "smp_err_flag self sta =
    (if chip_select self - 4 < 0 then Inl ShiftCountError
     else Inr (signed_drop_bit (nat (chip_select self - 4))
                 (urukul_sta_smp_err (cpld self) sta) AND 1 \<noteq> 0))"

text \<open>
  One probe: program the tap and the window, clear the error state, read
  the status word, wait, and look at the flag.
\<close>

definition probe_smp_err ::
  "ad9910 \<Rightarrow> int32 \<Rightarrow> int32 \<Rightarrow> state \<Rightarrow> (error + bool) \<times> state" where
  "probe_smp_err self in_delay window st =
    (let st = set_sync self in_delay window st;
         st = clear_smp_err self st;
         (sta, st) = sta_read self st;
         st = delay_us self 40 st
     in (smp_err_flag self sta, st))"

text \<open>Re-program with the final window and re-clear.\<close>

definition settle_sync :: "ad9910 \<Rightarrow> int32 \<Rightarrow> int32 \<Rightarrow> state \<Rightarrow> state" where
  "settle_sync self in_delay window st =
     delay_us self 40 (clear_smp_err self (set_sync self in_delay window st))"

text \<open>
  The first pair of the order whose probe shows no error is returned, with
  the window decreased by one step; \<open>Inr None\<close> when there is none.
\<close>

fun first_valid ::
  "ad9910 \<Rightarrow> (int32 \<times> int32) list \<Rightarrow> state
     \<Rightarrow> (error + (int32 \<times> int32) option) \<times> state" where
  "first_valid self [] st = (Inr None, st)"
| "first_valid self ((d, w) # ps) st =
    (case probe_smp_err self d w st of
       (Inl e, st') \<Rightarrow> (Inl e, st')
     | (Inr err, st') \<Rightarrow>
         if err then first_valid self ps st'
         else (Inr (Some (d, w - 1)), settle_sync self d (w - 1) st'))"

definition tune_sync_delay_spec ::
  "ad9910 \<Rightarrow> int32 \<Rightarrow> state \<Rightarrow> (error + int32 \<times> int32) \<times> state" where
  "tune_sync_delay_spec self seed st =
    (case first_valid self (scan_order seed) st of
       (Inr (Some r), st') \<Rightarrow> (Inr r, st')
     | (Inr None, st') \<Rightarrow> (Inl NoValidWindow, st')
     | (Inl e, st') \<Rightarrow> (Inl e, st'))"

text \<open>The number of probes of the error flag in a trace.\<close>

definition sta_reads :: "event list \<Rightarrow> nat" where
  "sta_reads es = length (filter (\<lambda>e. e = StaRead) es)"

text \<open>The tap that the loop of \<open>tune_sync_delay\<close> computes from its index.\<close>

definition loop_tap :: "int32 \<Rightarrow> nat \<Rightarrow> int32" where
  "loop_tap seed i =
     seed + signed_drop_bit 1 (if (of_nat i :: int32) AND 1 \<noteq> 0 then - of_nat i else of_nat i)"

section \<open>Synthetic sample error devices\<close>


text \<open>
  The same two devices addressed with \<open>chip_select = 3\<close>, which the
  constructor accepts.
\<close>

definition demo3_channel :: ad9910 where
  "demo3_channel = demo_channel\<lparr>chip_select := 3\<rparr>"


text \<open>
  A device whose flags depend on the tap and the window last written to the
  sync register: all flags are clear where \<open>ok tap window\<close> holds and
  asserted elsewhere. The history is searched from its end for the data word
  of the last write to register \<open>0x0A\<close>.
\<close>

fun last_msync :: "event list \<Rightarrow> int32 option" where
  "last_msync (BusWrite d # SetConfig f l dv c # BusWrite a # SetConfig f' l' dv' c' # es) =
     (if a = 0x0A000000 \<and> l' = 8 then Some d
      else last_msync (SetConfig f l dv c # BusWrite a # SetConfig f' l' dv' c' # es))"
| "last_msync (e # es) = last_msync es"
| "last_msync [] = None"

definition sync_ok_word :: "(nat \<Rightarrow> nat \<Rightarrow> bool) \<Rightarrow> int32 \<Rightarrow> bool" where
  "sync_ok_word ok data = ok (unat (drop_bit 3 data AND 0x1f)) (unat (drop_bit 28 data))"

definition sync_extern :: "(nat \<Rightarrow> nat \<Rightarrow> bool) \<Rightarrow> extern" where
  "sync_extern ok = demo_extern
     \<lparr>sta_read_val := (\<lambda>h. case last_msync (rev h) of
          None \<Rightarrow> 0xf0
        | Some data \<Rightarrow> if sync_ok_word ok data then 0 else 0xf0)\<rparr>"

definition sync_channel :: "(nat \<Rightarrow> nat \<Rightarrow> bool) \<Rightarrow> ad9910" where
  "sync_channel ok = demo_channel\<lparr>cpld := sync_extern ok\<rparr>"

text \<open>Valid at taps 0 and 2 for windows up to 3; valid at taps 0 and 29.\<close>

definition narrow_ok :: "nat \<Rightarrow> nat \<Rightarrow> bool" where
  "narrow_ok tap window = (window \<le> 3 \<and> (tap = 0 \<or> tap = 2))"

definition edge_ok :: "nat \<Rightarrow> nat \<Rightarrow> bool" where
  "edge_ok tap window = (tap = 0 \<or> tap = 29)"

section \<open>Properties\<close>

subsection \<open>Traces and the cursor\<close>

lemma trace_bus_op [simp]: "trace (bus_op self ev st) = trace st @ [ev]"
  by (simp add: bus_op_def)

lemma now_bus_op [simp]:
  "now (bus_op self ev st) = now st + bus_time (cpld self) (trace st) ev"
  by (simp add: bus_op_def)

lemma trace_write32 [simp]:
  "trace (write32 self a d st) = trace st @ write32_events self a d"
  by (simp add: write32_def write32_events_def bus_set_config_mu_def bus_write_def Let_def)

lemma trace_write64 [simp]:
  "trace (write64 self a h l st) = trace st @ write64_events self a h l"
  by (simp add: write64_def write64_events_def bus_set_config_mu_def bus_write_def Let_def)

lemma trace_at_mu [simp]: "trace (at_mu t st) = trace st"
  by (simp add: at_mu_def)

lemma now_at_mu [simp]: "now (at_mu t st) = t"
  by (simp add: at_mu_def)

lemma trace_delay_mu [simp]: "trace (delay_mu t st) = trace st"
  by (simp add: delay_mu_def)

lemma trace_io_update_pulse_mu [simp]:
  "trace (io_update_pulse_mu d st) = trace st @ [IoUpdate (now st) d]"
  by (simp add: io_update_pulse_mu_def)

lemma emitted_append: "trace st' = trace st @ es \<Longrightarrow> emitted st st' = es"
  by (simp add: emitted_def)

lemma demo_dt_time: "dt_time demo_channel demo_state = 16"
  by (simp add: dt_time_def write32_def bus_set_config_mu_def bus_write_def Let_def
      demo_channel_def demo_extern_def demo_state_def)

subsection \<open>Truncation to 32 bits\<close>

lemma word_of_int_mod64: "(word_of_int (k mod 2 ^ 64) :: int32) = word_of_int k"
proof -
  have "(2::int) ^ 32 dvd 2 ^ 64" by (simp add: le_imp_power_dvd)
  then have "k mod 2 ^ 64 mod 2 ^ 32 = k mod 2 ^ 32" by (rule mod_mod_cancel)
  then show ?thesis by (simp add: word_of_int_eq_iff take_bit_eq_mod)
qed

lemma ucast_down_add32: "(ucast (a + b :: int64) :: int32) = ucast a + ucast b"
proof -
  have "(ucast (a + b) :: int32) = word_of_int (uint (a + b))" by (rule ucast_eq)
  also have "uint (a + b) = (uint a + uint b) mod 2 ^ 64"
    by (simp add: uint_word_ariths)
  also have "(word_of_int ((uint a + uint b) mod 2 ^ 64) :: int32) = word_of_int (uint a + uint b)"
    by (rule word_of_int_mod64)
  also have "\<dots> = word_of_int (uint a) + word_of_int (uint b)" by (rule of_int_add)
  also have "\<dots> = ucast a + ucast b" by (simp only: ucast_eq)
  finally show ?thesis .
qed

lemma ucast_down_minus32: "(ucast (a - b :: int64) :: int32) = ucast a - ucast b"
proof -
  have "(ucast (a - b) :: int32) + ucast b = ucast (a - b + b)"
    by (simp only: ucast_down_add32)
  then have "(ucast (a - b) :: int32) + ucast b = ucast a" by simp
  then show ?thesis by (simp only: eq_diff_eq)
qed

lemma ucast_down_of_nat32: "(ucast (of_nat n :: int64) :: int32) = of_nat n"
proof -
  have "(ucast (of_nat n :: int64) :: int32) = of_nat (take_bit 64 n)"
    by (simp add: unsigned_of_nat)
  also have "\<dots> = of_nat n"
    by (simp add: word_of_nat_eq_iff)
  finally show ?thesis .
qed

lemma period_mult_zero:
  assumes "unat (ftw :: int32) dvd 2 ^ 32"
  shows "(of_nat (2 ^ 32 div unat ftw) :: int32) * ftw = 0"
proof -
  have "(of_nat (2 ^ 32 div unat ftw) :: int32) * ftw
          = of_nat (2 ^ 32 div unat ftw) * of_nat (unat ftw)" by simp
  also have "\<dots> = of_nat (2 ^ 32 div unat ftw * unat ftw)" by (simp only: of_nat_mult)
  also have "2 ^ 32 div unat ftw * unat ftw = 2 ^ 32" using assms by simp
  also have "(of_nat (2 ^ 32) :: int32) = 0" by simp
  finally show ?thesis .
qed

subsection \<open>What \<open>set_mu\<close> returns and records\<close>

lemma set_mu_fst:
  "fst (set_mu self ftw pow asf pm ref_time st) =
    (let m = (if pm = PHASE_MODE_DEFAULT then phase_mode st else pm);
         r = (if m = PHASE_MODE_TRACKING then fiducial ref_time else ref_time)
     in if m \<noteq> PHASE_MODE_CONTINUOUS \<and> 0 \<le> sint r
        then pow + signed_drop_bit 16
               ((ucast (dt_time self st) - ucast r) * ftw * word_of_int (sysclk_per_mu self))
        else pow)"
  by (simp add: set_mu_def fiducial_def dt_time_def Let_def split_def)

lemma set_mu_trace_continuous:
  "(if pm = PHASE_MODE_DEFAULT then phase_mode st else pm) = PHASE_MODE_CONTINUOUS \<Longrightarrow>
   \<exists>t. trace (snd (set_mu self ftw pow asf pm ref_time st)) =
     trace st @ write64_events self AD9910_REG_PR0 (push_bit 16 asf OR pow) ftw @ [IoUpdate t 8]"
  by (simp add: set_mu_def Let_def split_def)

lemma set_mu_trace_clearing:
  "(if pm = PHASE_MODE_DEFAULT then phase_mode st else pm) \<noteq> PHASE_MODE_CONTINUOUS \<Longrightarrow>
   \<exists>t. trace (snd (set_mu self ftw pow asf pm ref_time st)) =
     trace st @ write32_events self AD9910_REG_CFR1 0x2002 @
       write64_events self AD9910_REG_PR0
         (push_bit 16 asf OR fst (set_mu self ftw pow asf pm ref_time st)) ftw @
       [IoUpdate t 8] @ write32_events self AD9910_REG_CFR1 2"
  by (simp add: set_mu_def Let_def split_def)

lemma reg_trace_clearing:
  "reg_trace (write32_events self AD9910_REG_CFR1 0x2002 @
       write64_events self AD9910_REG_PR0 hi ftw @
       [IoUpdate t 8] @ write32_events self AD9910_REG_CFR1 2) =
    [RegWrite32 AD9910_REG_CFR1 0x2002, RegWrite64 AD9910_REG_PR0 hi ftw, UpdatePulse t 8,
     RegWrite32 AD9910_REG_CFR1 2]"
  by (simp add: reg_trace_def write32_events_def write64_events_def AD9910_REG_CFR1_def
      AD9910_REG_PR0_def)

lemma reg_trace_continuous:
  "reg_trace (write64_events self AD9910_REG_PR0 hi ftw @ [IoUpdate t 8]) =
    [RegWrite64 AD9910_REG_PR0 hi ftw, UpdatePulse t 8]"
  by (simp add: reg_trace_def write64_events_def AD9910_REG_PR0_def)

lemma set_mu_regs_clearing:
  assumes "(if pm = PHASE_MODE_DEFAULT then phase_mode st else pm) \<noteq> PHASE_MODE_CONTINUOUS"
  shows "\<exists>t. reg_trace (emitted st (snd (set_mu self ftw pow asf pm ref_time st))) =
    [RegWrite32 AD9910_REG_CFR1 0x2002,
     RegWrite64 AD9910_REG_PR0
       (push_bit 16 asf OR fst (set_mu self ftw pow asf pm ref_time st)) ftw,
     UpdatePulse t 8, RegWrite32 AD9910_REG_CFR1 2]"
proof -
  from set_mu_trace_clearing [OF assms] obtain t where
    "trace (snd (set_mu self ftw pow asf pm ref_time st)) =
     trace st @ write32_events self AD9910_REG_CFR1 0x2002 @
       write64_events self AD9910_REG_PR0
         (push_bit 16 asf OR fst (set_mu self ftw pow asf pm ref_time st)) ftw @
       [IoUpdate t 8] @ write32_events self AD9910_REG_CFR1 2"
    by blast
  then have "emitted st (snd (set_mu self ftw pow asf pm ref_time st)) =
     write32_events self AD9910_REG_CFR1 0x2002 @
       write64_events self AD9910_REG_PR0
         (push_bit 16 asf OR fst (set_mu self ftw pow asf pm ref_time st)) ftw @
       [IoUpdate t 8] @ write32_events self AD9910_REG_CFR1 2"
    by (rule emitted_append)
  then show ?thesis by (simp only: reg_trace_clearing) blast
qed

lemma set_mu_regs_continuous:
  assumes "(if pm = PHASE_MODE_DEFAULT then phase_mode st else pm) = PHASE_MODE_CONTINUOUS"
  shows "\<exists>t. reg_trace (emitted st (snd (set_mu self ftw pow asf pm ref_time st))) =
    [RegWrite64 AD9910_REG_PR0 (push_bit 16 asf OR pow) ftw, UpdatePulse t 8]"
proof -
  from set_mu_trace_continuous [OF assms] obtain t where
    "trace (snd (set_mu self ftw pow asf pm ref_time st)) =
     trace st @ write64_events self AD9910_REG_PR0 (push_bit 16 asf OR pow) ftw @ [IoUpdate t 8]"
    by blast
  then have "emitted st (snd (set_mu self ftw pow asf pm ref_time st)) =
     write64_events self AD9910_REG_PR0 (push_bit 16 asf OR pow) ftw @ [IoUpdate t 8]"
    by (rule emitted_append)
  then show ?thesis by (simp only: reg_trace_continuous) blast
qed

subsection \<open>The concrete channel\<close>

lemma demo_sysclk_per_mu: "sysclk_per_mu demo_channel = 1"
  by (simp add: demo_channel_def)

lemma demo_phase_mode: "phase_mode demo_state = 0"
  by (simp add: demo_state_def)

lemmas phase_mode_defs =
  PHASE_MODE_DEFAULT_def PHASE_MODE_CONTINUOUS_def PHASE_MODE_ABSOLUTE_def PHASE_MODE_TRACKING_def

subsection \<open>Absolute mode\<close>

text \<open>
  Claim C1 says that in Absolute mode a supplied reference time is ignored.
  It is not: with \<open>ref_time = 0\<close>, a cursor of 16 and \<open>ftw = 2^16\<close> the
  call returns the phase word 16 for a requested phase word 0.
\<close>

theorem set_mu_absolute_ref_time_counterexample:
  "fst (set_mu demo_channel 0x10000 0 0x3fff PHASE_MODE_ABSOLUTE 0 demo_state) = 16 \<and>
   fst (set_mu demo_channel 0x10000 0 0x3fff PHASE_MODE_ABSOLUTE 0 demo_state) \<noteq> 0"
  by (simp add: set_mu_fst demo_dt_time demo_sysclk_per_mu phase_mode_defs)

text \<open>
  Claim C1, amended. In Absolute mode (given in the call, or as the object's
  default) the phase word returned and written is the requested one when no
  reference time is supplied (\<open>ref_time < 0\<close>); for a supplied reference
  time (\<open>ref_time \<ge> 0\<close>) the tracking correction
  \<open>((now - ref_time) * ftw * sysclk_per_mu) >> 16\<close> is added, as the
  docstring of \<open>set_mu\<close> says ("Fiducial time used to compute absolute or
  tracking phase updates"). The word written is the low part of the high
  word of the profile register write, between the arm and the disarm write.
\<close>

theorem set_mu_absolute_pow:
  assumes "pm = PHASE_MODE_ABSOLUTE \<or>
           (pm = PHASE_MODE_DEFAULT \<and> phase_mode st = PHASE_MODE_ABSOLUTE)"
  shows "fst (set_mu self ftw pow asf pm ref_time st) =
           (if sint ref_time < 0 then pow
            else pow + signed_drop_bit 16
                   ((ucast (dt_time self st) - ucast ref_time) * ftw *
                    word_of_int (sysclk_per_mu self))) \<and>
         (\<exists>t. reg_trace (emitted st (snd (set_mu self ftw pow asf pm ref_time st))) =
            [RegWrite32 AD9910_REG_CFR1 0x2002,
             RegWrite64 AD9910_REG_PR0
               (push_bit 16 asf OR fst (set_mu self ftw pow asf pm ref_time st)) ftw,
             UpdatePulse t 8, RegWrite32 AD9910_REG_CFR1 2])"
proof -
  have m: "(if pm = PHASE_MODE_DEFAULT then phase_mode st else pm) = PHASE_MODE_ABSOLUTE"
    using assms by (auto simp: PHASE_MODE_ABSOLUTE_def PHASE_MODE_DEFAULT_def)
  then have nc: "(if pm = PHASE_MODE_DEFAULT then phase_mode st else pm) \<noteq> PHASE_MODE_CONTINUOUS"
    by (simp add: PHASE_MODE_ABSOLUTE_def PHASE_MODE_CONTINUOUS_def)
  have "fst (set_mu self ftw pow asf pm ref_time st) =
           (if sint ref_time < 0 then pow
            else pow + signed_drop_bit 16
                   ((ucast (dt_time self st) - ucast ref_time) * ftw *
                    word_of_int (sysclk_per_mu self)))"
    unfolding set_mu_fst m Let_def
    by (simp add: PHASE_MODE_ABSOLUTE_def PHASE_MODE_TRACKING_def PHASE_MODE_CONTINUOUS_def)
  then show ?thesis using set_mu_regs_clearing [OF nc]
    by (intro conjI)
qed

theorem set_mu_absolute_pow_witness:
  "fst (set_mu demo_channel 0x10000 7 0x3fff PHASE_MODE_ABSOLUTE 0 demo_state) = 23 \<and>
   fst (set_mu demo_channel 0x10000 7 0x3fff PHASE_MODE_ABSOLUTE (- 1) demo_state) = 7"
  using set_mu_absolute_pow [where pm = PHASE_MODE_ABSOLUTE and st = demo_state
      and self = demo_channel and ftw = "0x10000" and pow = 7 and asf = "0x3fff" and ref_time = 0]
    set_mu_absolute_pow [where pm = PHASE_MODE_ABSOLUTE and st = demo_state
      and self = demo_channel and ftw = "0x10000" and pow = 7 and asf = "0x3fff" and ref_time = "- 1"]
  by (simp add: demo_dt_time demo_sysclk_per_mu)

subsection \<open>Tracking mode\<close>

text \<open>
  Claim C3. In Tracking mode the phase word returned and written is
  \<open>pow + (((now - ref_time) * ftw * sysclk_per_mu) >> 16)\<close>: the time
  difference is the difference of the low 32 bits of the cursor and of the
  fiducial, which is the low 32 bits of their difference; the product wraps
  at 32 bits and the shift is arithmetic. The fiducial is time zero when no
  reference time is supplied (\<open>ref_time < 0\<close>).
\<close>

theorem set_mu_tracking_pow:
  assumes "pm = PHASE_MODE_TRACKING \<or>
           (pm = PHASE_MODE_DEFAULT \<and> phase_mode st = PHASE_MODE_TRACKING)"
  shows "fst (set_mu self ftw pow asf pm ref_time st) =
           pow + signed_drop_bit 16
                   ((ucast (dt_time self st) - ucast (fiducial ref_time)) * ftw *
                    word_of_int (sysclk_per_mu self)) \<and>
         (ucast (dt_time self st) - ucast (fiducial ref_time) :: int32) =
            ucast (dt_time self st - fiducial ref_time) \<and>
         (\<exists>t. reg_trace (emitted st (snd (set_mu self ftw pow asf pm ref_time st))) =
            [RegWrite32 AD9910_REG_CFR1 0x2002,
             RegWrite64 AD9910_REG_PR0
               (push_bit 16 asf OR fst (set_mu self ftw pow asf pm ref_time st)) ftw,
             UpdatePulse t 8, RegWrite32 AD9910_REG_CFR1 2])"
proof -
  have m: "(if pm = PHASE_MODE_DEFAULT then phase_mode st else pm) = PHASE_MODE_TRACKING"
    using assms by (auto simp: phase_mode_defs)
  then have nc: "(if pm = PHASE_MODE_DEFAULT then phase_mode st else pm) \<noteq> PHASE_MODE_CONTINUOUS"
    by (simp add: phase_mode_defs)
  have f: "0 \<le> sint (fiducial ref_time)"
    by (simp add: fiducial_def)
  have a: "fst (set_mu self ftw pow asf pm ref_time st) =
           pow + signed_drop_bit 16
                   ((ucast (dt_time self st) - ucast (fiducial ref_time)) * ftw *
                    word_of_int (sysclk_per_mu self))"
    unfolding set_mu_fst m Let_def using f
    by (simp add: phase_mode_defs)
  have b: "(ucast (dt_time self st) - ucast (fiducial ref_time) :: int32) =
            ucast (dt_time self st - fiducial ref_time)"
    by (simp only: ucast_down_minus32)
  from a b set_mu_regs_clearing [OF nc] show ?thesis
    by (intro conjI)
qed

theorem set_mu_tracking_pow_witness:
  "fst (set_mu demo_channel 0x8000000 0 0x3fff PHASE_MODE_TRACKING (- 1) demo_state) = - 32768 \<and>
   fst (set_mu demo_channel 0x10000 7 0x3fff PHASE_MODE_TRACKING 6 demo_state) = 17"
  using set_mu_tracking_pow [where pm = PHASE_MODE_TRACKING and st = demo_state
      and self = demo_channel and ftw = "0x8000000" and pow = 0 and asf = "0x3fff" and ref_time = "- 1"]
    set_mu_tracking_pow [where pm = PHASE_MODE_TRACKING and st = demo_state
      and self = demo_channel and ftw = "0x10000" and pow = 7 and asf = "0x3fff" and ref_time = 6]
  by (simp add: demo_dt_time demo_sysclk_per_mu fiducial_def)

text \<open>
  Claim C8. For a frequency tuning word that divides \<open>2^32\<close>, two Tracking
  calls whose time differences \<open>now - ref_time\<close> differ by \<open>2^32 / ftw\<close>
  return the same phase word.
\<close>

theorem set_mu_tracking_periodic:
  assumes "unat ftw dvd 2 ^ 32"
    and "dt_time self st2 - fiducial r2 =
         dt_time self st1 - fiducial r1 + of_nat (2 ^ 32 div unat ftw)"
  shows "fst (set_mu self ftw pow asf PHASE_MODE_TRACKING r2 st2) =
         fst (set_mu self ftw pow asf PHASE_MODE_TRACKING r1 st1)"
proof -
  have "(ucast (dt_time self st2) - ucast (fiducial r2) :: int32) =
          ucast (dt_time self st2 - fiducial r2)"
    by (simp only: ucast_down_minus32)
  also have "\<dots> = ucast (dt_time self st1 - fiducial r1) + of_nat (2 ^ 32 div unat ftw)"
    by (simp only: assms(2) ucast_down_add32 ucast_down_of_nat32)
  finally have d: "(ucast (dt_time self st2) - ucast (fiducial r2) :: int32) =
      (ucast (dt_time self st1) - ucast (fiducial r1)) + of_nat (2 ^ 32 div unat ftw)"
    by (simp only: ucast_down_minus32)
  have "(ucast (dt_time self st2) - ucast (fiducial r2) :: int32) * ftw =
        (ucast (dt_time self st1) - ucast (fiducial r1)) * ftw +
        of_nat (2 ^ 32 div unat ftw) * ftw"
    by (simp only: d distrib_right)
  then have e: "(ucast (dt_time self st2) - ucast (fiducial r2) :: int32) * ftw =
        (ucast (dt_time self st1) - ucast (fiducial r1)) * ftw"
    by (simp only: period_mult_zero [OF assms(1)] add_0_right)
  have f: "0 \<le> sint (fiducial r)" for r
    by (simp add: fiducial_def)
  show ?thesis
    unfolding set_mu_fst Let_def using f [of r1] f [of r2]
    by (simp add: phase_mode_defs e)
qed

theorem set_mu_tracking_periodic_witness:
  "fst (set_mu demo_channel 0x40000000 7 0x3fff PHASE_MODE_TRACKING 2 demo_state) =
   fst (set_mu demo_channel 0x40000000 7 0x3fff PHASE_MODE_TRACKING 6 demo_state)"
  using set_mu_tracking_periodic [where ftw = "0x40000000" and self = demo_channel
      and ?st1.0 = demo_state and ?st2.0 = demo_state and ?r1.0 = 6 and ?r2.0 = 2
      and pow = 7 and asf = "0x3fff"]
  by (simp add: demo_dt_time fiducial_def)

text \<open>
  Claim C10. The phase word is never reduced modulo \<open>2^16\<close>: the high word
  of the profile register write is \<open>(asf << 16) | pow\<close> with the phase word
  as returned, in every mode; and there are Tracking calls with a requested
  phase word below \<open>2^16\<close> whose returned phase word is negative, and others
  where it is \<open>2^16\<close> or more, and in both the bits above bit 15 of the high
  word are no longer the amplitude scale factor.
\<close>

theorem set_mu_pow_unreduced:
  "(\<forall>self ftw pow asf pm ref_time st. \<exists>pre post.
      reg_trace (emitted st (snd (set_mu self ftw pow asf pm ref_time st))) =
        pre @ [RegWrite64 AD9910_REG_PR0
                 (push_bit 16 asf OR fst (set_mu self ftw pow asf pm ref_time st)) ftw] @ post) \<and>
   (\<exists>ftw pow asf ref_time.
      pow < 2 ^ 16 \<and>
      sint (fst (set_mu demo_channel ftw pow asf PHASE_MODE_TRACKING ref_time demo_state)) < 0 \<and>
      drop_bit 16 (push_bit 16 asf OR
        fst (set_mu demo_channel ftw pow asf PHASE_MODE_TRACKING ref_time demo_state)) \<noteq> asf) \<and>
   (\<exists>ftw pow asf ref_time.
      pow < 2 ^ 16 \<and>
      2 ^ 16 \<le> sint (fst (set_mu demo_channel ftw pow asf PHASE_MODE_TRACKING ref_time demo_state)) \<and>
      drop_bit 16 (push_bit 16 asf OR
        fst (set_mu demo_channel ftw pow asf PHASE_MODE_TRACKING ref_time demo_state)) \<noteq> asf)"
proof (intro conjI allI)
  fix self ftw pow asf pm ref_time st
  show "\<exists>pre post.
      reg_trace (emitted st (snd (set_mu self ftw pow asf pm ref_time st))) =
        pre @ [RegWrite64 AD9910_REG_PR0
                 (push_bit 16 asf OR fst (set_mu self ftw pow asf pm ref_time st)) ftw] @ post"
  proof (cases "(if pm = PHASE_MODE_DEFAULT then phase_mode st else pm) = PHASE_MODE_CONTINUOUS")
    case True
    have a: "fst (set_mu self ftw pow asf pm ref_time st) = pow"
      unfolding set_mu_fst True Let_def by simp
    from set_mu_regs_continuous [where self = self and ftw = ftw and pow = pow and asf = asf
        and ref_time = ref_time, OF True] obtain t where
      "reg_trace (emitted st (snd (set_mu self ftw pow asf pm ref_time st))) =
        [RegWrite64 AD9910_REG_PR0 (push_bit 16 asf OR pow) ftw, UpdatePulse t 8]"
      by blast
    then have "reg_trace (emitted st (snd (set_mu self ftw pow asf pm ref_time st))) =
        [] @ [RegWrite64 AD9910_REG_PR0 (push_bit 16 asf OR pow) ftw] @ [UpdatePulse t 8]"
      by simp
    then show ?thesis unfolding a by blast
  next
    case False
    from set_mu_regs_clearing [where self = self and ftw = ftw and pow = pow and asf = asf
        and ref_time = ref_time, OF False] obtain t where
      "reg_trace (emitted st (snd (set_mu self ftw pow asf pm ref_time st))) =
        [RegWrite32 AD9910_REG_CFR1 0x2002,
         RegWrite64 AD9910_REG_PR0
          (push_bit 16 asf OR fst (set_mu self ftw pow asf pm ref_time st)) ftw,
         UpdatePulse t 8, RegWrite32 AD9910_REG_CFR1 2]"
      by blast
    then have "reg_trace (emitted st (snd (set_mu self ftw pow asf pm ref_time st))) =
        [RegWrite32 AD9910_REG_CFR1 0x2002] @
        [RegWrite64 AD9910_REG_PR0
          (push_bit 16 asf OR fst (set_mu self ftw pow asf pm ref_time st)) ftw] @
        [UpdatePulse t 8, RegWrite32 AD9910_REG_CFR1 2]"
      by simp
    then show ?thesis by blast
  qed
next
  have "(0::int32) < 2 ^ 16 \<and>
      sint (fst (set_mu demo_channel 0x8000000 0 0 PHASE_MODE_TRACKING (- 1) demo_state)) < 0 \<and>
      drop_bit 16 (push_bit 16 0 OR
        fst (set_mu demo_channel 0x8000000 0 0 PHASE_MODE_TRACKING (- 1) demo_state)) \<noteq> (0::int32)"
    by (simp add: set_mu_fst demo_dt_time demo_sysclk_per_mu phase_mode_defs fiducial_def)
  then show "\<exists>ftw pow asf ref_time.
      pow < 2 ^ 16 \<and>
      sint (fst (set_mu demo_channel ftw pow asf PHASE_MODE_TRACKING ref_time demo_state)) < 0 \<and>
      drop_bit 16 (push_bit 16 asf OR
        fst (set_mu demo_channel ftw pow asf PHASE_MODE_TRACKING ref_time demo_state)) \<noteq> asf"
    by blast
next
  have "(0xffff::int32) < 2 ^ 16 \<and>
      2 ^ 16 \<le> sint (fst (set_mu demo_channel 0x10000 0xffff 0 PHASE_MODE_TRACKING (- 1) demo_state)) \<and>
      drop_bit 16 (push_bit 16 0 OR
        fst (set_mu demo_channel 0x10000 0xffff 0 PHASE_MODE_TRACKING (- 1) demo_state)) \<noteq> (0::int32)"
    by (simp add: set_mu_fst demo_dt_time demo_sysclk_per_mu phase_mode_defs fiducial_def)
  then show "\<exists>ftw pow asf ref_time.
      pow < 2 ^ 16 \<and>
      2 ^ 16 \<le> sint (fst (set_mu demo_channel ftw pow asf PHASE_MODE_TRACKING ref_time demo_state)) \<and>
      drop_bit 16 (push_bit 16 asf OR
        fst (set_mu demo_channel ftw pow asf PHASE_MODE_TRACKING ref_time demo_state)) \<noteq> asf"
    by blast
qed

subsection \<open>The arm and disarm bracket\<close>

text \<open>
  Claim C4. A call in Absolute or Tracking mode makes exactly four register
  operations: the arm write (CFR1 with the auto-clear bit), the profile
  write, one update pulse and the disarm write (CFR1 without the bit), in
  this order; there is one arm write, one disarm write and one pulse, and
  the last CFR1 write of the call is the disarm write. \<open>set_mu\<close> has no
  failing path, so this is every call.
\<close>

theorem set_mu_arm_disarm_bracket:
  assumes "pm = PHASE_MODE_ABSOLUTE \<or> pm = PHASE_MODE_TRACKING \<or>
           (pm = PHASE_MODE_DEFAULT \<and>
            (phase_mode st = PHASE_MODE_ABSOLUTE \<or> phase_mode st = PHASE_MODE_TRACKING))"
  shows "\<exists>hi t.
           reg_trace (emitted st (snd (set_mu self ftw pow asf pm ref_time st))) =
             [RegWrite32 AD9910_REG_CFR1 0x2002, RegWrite64 AD9910_REG_PR0 hi ftw,
              UpdatePulse t 8, RegWrite32 AD9910_REG_CFR1 2] \<and>
           filter is_arm
             (reg_trace (emitted st (snd (set_mu self ftw pow asf pm ref_time st)))) =
             [RegWrite32 AD9910_REG_CFR1 0x2002] \<and>
           filter is_disarm
             (reg_trace (emitted st (snd (set_mu self ftw pow asf pm ref_time st)))) =
             [RegWrite32 AD9910_REG_CFR1 2] \<and>
           filter is_pulse
             (reg_trace (emitted st (snd (set_mu self ftw pow asf pm ref_time st)))) =
             [UpdatePulse t 8] \<and>
           is_disarm (last (filter is_cfr1_write
             (reg_trace (emitted st (snd (set_mu self ftw pow asf pm ref_time st))))))"
proof -
  have nc: "(if pm = PHASE_MODE_DEFAULT then phase_mode st else pm) \<noteq> PHASE_MODE_CONTINUOUS"
    using assms by (auto simp: phase_mode_defs)
  from set_mu_regs_clearing [where self = self and ftw = ftw and pow = pow and asf = asf
      and ref_time = ref_time, OF nc] obtain t where
    rt: "reg_trace (emitted st (snd (set_mu self ftw pow asf pm ref_time st))) =
      [RegWrite32 AD9910_REG_CFR1 0x2002,
       RegWrite64 AD9910_REG_PR0
         (push_bit 16 asf OR fst (set_mu self ftw pow asf pm ref_time st)) ftw,
       UpdatePulse t 8, RegWrite32 AD9910_REG_CFR1 2]"
    by blast
  show ?thesis
    unfolding rt
    by (intro exI conjI)
       (simp_all add: is_arm_def is_disarm_def is_pulse_def is_cfr1_write_def
          AD9910_REG_CFR1_def AD9910_REG_PR0_def)
qed

theorem set_mu_arm_disarm_bracket_witness:
  "\<exists>hi t.
     reg_trace (emitted demo_state
        (snd (set_mu demo_channel 0x10000 7 0x3fff PHASE_MODE_TRACKING 6 demo_state))) =
       [RegWrite32 AD9910_REG_CFR1 0x2002, RegWrite64 AD9910_REG_PR0 hi 0x10000,
        UpdatePulse t 8, RegWrite32 AD9910_REG_CFR1 2]"
  using set_mu_arm_disarm_bracket [where pm = PHASE_MODE_TRACKING and st = demo_state
      and self = demo_channel and ftw = "0x10000" and pow = 7 and asf = "0x3fff" and ref_time = 6]
  by blast

text \<open>
  Claim C5. A call in Continuous mode returns the requested phase word
  unchanged, writes no CFR1 register at all, and its only register write is
  the 64-bit profile write, whose high word carries the requested phase
  word.
\<close>

theorem set_mu_continuous_no_clear:
  assumes "pm = PHASE_MODE_CONTINUOUS \<or>
           (pm = PHASE_MODE_DEFAULT \<and> phase_mode st = PHASE_MODE_CONTINUOUS)"
  shows "fst (set_mu self ftw pow asf pm ref_time st) = pow \<and>
         (\<exists>t. reg_trace (emitted st (snd (set_mu self ftw pow asf pm ref_time st))) =
            [RegWrite64 AD9910_REG_PR0 (push_bit 16 asf OR pow) ftw, UpdatePulse t 8]) \<and>
         filter is_cfr1_write
           (reg_trace (emitted st (snd (set_mu self ftw pow asf pm ref_time st)))) = [] \<and>
         filter is_reg_write
           (reg_trace (emitted st (snd (set_mu self ftw pow asf pm ref_time st)))) =
           [RegWrite64 AD9910_REG_PR0 (push_bit 16 asf OR pow) ftw]"
proof -
  have c: "(if pm = PHASE_MODE_DEFAULT then phase_mode st else pm) = PHASE_MODE_CONTINUOUS"
    using assms by (auto simp: phase_mode_defs)
  from set_mu_regs_continuous [where self = self and ftw = ftw and pow = pow and asf = asf
      and ref_time = ref_time, OF c] obtain t where
    rt: "reg_trace (emitted st (snd (set_mu self ftw pow asf pm ref_time st))) =
      [RegWrite64 AD9910_REG_PR0 (push_bit 16 asf OR pow) ftw, UpdatePulse t 8]"
    by blast
  have a: "fst (set_mu self ftw pow asf pm ref_time st) = pow"
    unfolding set_mu_fst c Let_def by simp
  show ?thesis
    unfolding rt a
    by (intro exI conjI) (simp_all add: is_cfr1_write_def is_reg_write_def)
qed

theorem set_mu_continuous_no_clear_witness:
  "fst (set_mu demo_channel 0x10000 7 0x3fff PHASE_MODE_DEFAULT 6 demo_state) = 7 \<and>
   filter is_cfr1_write (reg_trace (emitted demo_state
     (snd (set_mu demo_channel 0x10000 7 0x3fff PHASE_MODE_DEFAULT 6 demo_state)))) = [] \<and>
   filter is_reg_write (reg_trace (emitted demo_state
     (snd (set_mu demo_channel 0x10000 7 0x3fff PHASE_MODE_DEFAULT 6 demo_state)))) =
     [RegWrite64 AD9910_REG_PR0 0x3fff0007 0x10000]"
  using set_mu_continuous_no_clear [where pm = PHASE_MODE_DEFAULT and st = demo_state
      and self = demo_channel and ftw = "0x10000" and pow = 7 and asf = "0x3fff" and ref_time = 6]
  by (simp add: demo_phase_mode PHASE_MODE_CONTINUOUS_def)

subsection \<open>IO_UPDATE alignment\<close>

lemma ucast_scast_32_64: "(ucast (scast (w :: int32) :: int64) :: int32) = w"
proof -
  have d: "is_down (ucast :: int64 \<Rightarrow> int32)" by (simp add: is_down)
  have u: "is_up (scast :: int32 \<Rightarrow> int64)" by (simp add: is_up)
  have "(ucast (scast w :: int64) :: int32) = scast (scast w :: int64)"
    by (simp only: down_cast_same [OF d])
  also have "\<dots> = w" by (rule scast_up_scast_id [OF u])
  finally show ?thesis .
qed

lemma edge_probe:
  "fst (measure_io_update_alignment (edge_channel k) d st) = (if unat d mod 4 < k then 0 else 1)"
  by (simp add: measure_io_update_alignment_def read32_def bus_read_def bus_write_def
      bus_set_config_mu_def Let_def split_def edge_channel_def edge_extern_def
      write32_events_def write64_events_def delay_us_def ucast_scast_32_64)

lemma edge_io_update_delay: "io_update_delay (edge_channel k) = 0"
  by (simp add: edge_channel_def demo_channel_def)

lemma upt_0_7: "[0..<7] = [0, 1, 2, 3, 4, 5, 6]"
  by (simp add: upt_conv_Cons)

lemma flipped_bit_differs: "1 - b \<noteq> (b :: int32)"
proof
  assume "1 - b = b"
  then have "b + b = 1" by (simp add: algebra_simps)
  then have "even (1 :: int32)" by (metis even_add)
  then show False by simp
qed

lemma io_update_edge_result:
  assumes d0: "io_update_delay self = 0"
    and k: "k = 1 \<or> k = 2 \<or> k = 3"
    and probe: "\<forall>d st. fst (measure_io_update_alignment self d st) =
                  (if unat d mod 4 < k then b else 1 - b)"
  shows "fst (tune_io_update_delay self st) = Inr (of_nat ((k + 1) mod 4))"
proof -
  have p: "fst (measure_io_update_alignment self d s) = (if unat d mod 4 < k then b else 1 - b)"
    for d s
    using probe by blast
  note neq = flipped_bit_differs [of b] flipped_bit_differs [of b, symmetric]
  from k show ?thesis
  proof (elim disjE)
    assume "k = 1"
    then show ?thesis
      using neq by (simp add: tune_io_update_delay_def Let_def split_def d0 p upt_0_7)
  next
    assume "k = 2"
    then show ?thesis
      using neq by (simp add: tune_io_update_delay_def Let_def split_def d0 p upt_0_7)
  next
    assume "k = 3"
    then show ?thesis
      using neq by (simp add: tune_io_update_delay_def Let_def split_def d0 p upt_0_7)
  qed
qed

text \<open>
  Claim C2 says that the scan returns \<open>(k + 2) mod 4\<close>. With the edge at
  \<open>k = 1\<close> (probe bit 0 at delay 0, bit 1 at delays 1, 2 and 3) and a
  starting delay of 0 it returns 2, not 3.
\<close>

theorem tune_io_update_delay_midpoint_counterexample:
  "fst (measure_io_update_alignment (edge_channel 1) 0 demo_state) = 0 \<and>
   fst (measure_io_update_alignment (edge_channel 1) 1 demo_state) = 1 \<and>
   fst (measure_io_update_alignment (edge_channel 1) 2 demo_state) = 1 \<and>
   fst (measure_io_update_alignment (edge_channel 1) 3 demo_state) = 1 \<and>
   io_update_delay (edge_channel 1) = 0 \<and>
   fst (tune_io_update_delay (edge_channel 1) demo_state) = Inr 2 \<and>
   fst (tune_io_update_delay (edge_channel 1) demo_state) \<noteq> Inr (of_nat ((1 + 2) mod 4))"
  using io_update_edge_result [where self = "edge_channel 1" and k = 1 and b = 0
      and st = demo_state]
  by (simp add: edge_probe edge_io_update_delay)

text \<open>
  Claim C2, amended. For every \<open>k\<close> in \<open>[1,4)\<close>, if the alignment probe
  returns a fixed bit \<open>b\<close> for delays in \<open>[0,k)\<close> and the flipped bit
  \<open>1 - b\<close> for delays in \<open>[k,4)\<close>, extended with period 4, then
  \<open>tune_io_update_delay\<close> started with \<open>io_update_delay = 0\<close> returns
  \<open>(k + 1) mod 4\<close>: the flip is seen at loop index \<open>i = k - 1\<close> and the
  result is \<open>(d0 + i + period//2) & (period - 1)\<close>.
\<close>

theorem tune_io_update_delay_edge:
  assumes "io_update_delay self = 0"
    and "1 \<le> k" and "k < 4"
    and "\<forall>d st. fst (measure_io_update_alignment self d st) =
           (if unat d mod 4 < k then b else 1 - b)"
  shows "fst (tune_io_update_delay self st) = Inr (of_nat ((k + 1) mod 4))"
proof -
  from assms(2,3) have k: "k = 1 \<or> k = 2 \<or> k = 3" by arith
  show ?thesis by (rule io_update_edge_result [OF assms(1) k assms(4)])
qed

theorem tune_io_update_delay_edge_witness:
  "io_update_delay (edge_channel 3) = 0 \<and> (1::nat) \<le> 3 \<and> (3::nat) < 4 \<and>
   fst (tune_io_update_delay (edge_channel 3) demo_state) = Inr 0 \<and>
   fst (tune_io_update_delay (edge_channel 2) demo_state) = Inr 3"
  using tune_io_update_delay_edge [where self = "edge_channel 3" and k = 3 and b = 0
      and st = demo_state]
    tune_io_update_delay_edge [where self = "edge_channel 2" and k = 2 and b = 0
      and st = demo_state]
  by (simp add: edge_probe edge_io_update_delay)

subsection \<open>SYNC_IN delay tuning\<close>

lemma taps_first_valid:
  "tune_sync_delay_taps self seed 1 window is st =
     first_valid self
       (map (\<lambda>d. (d, window)) (filter tap_in_range (map (loop_tap seed) is))) st"
proof (induction "is" arbitrary: st)
  case Nil
  show ?case by simp
next
  case (Cons i "is")
  show ?case
    by (simp add: Cons.IH loop_tap_def tap_in_range_def probe_smp_err_def
        smp_err_flag_def settle_sync_def Let_def split_def not_less)
qed

lemma first_valid_append:
  "first_valid self (ps @ qs) st =
    (case first_valid self ps st of
       (Inr None, st') \<Rightarrow> first_valid self qs st'
     | r \<Rightarrow> r)"
proof (induction ps arbitrary: st)
  case Nil
  show ?case by simp
next
  case (Cons p ps)
  obtain d w where p: "p = (d, w)" by (cases p)
  show ?case
    by (simp add: p Cons.IH split: prod.splits sum.splits option.splits)
qed

lemma windows_first_valid:
  "tune_sync_delay_windows self seed max_delay max_window 1 ws st =
     first_valid self
       (concat (map (\<lambda>w. map (\<lambda>d. (d, max_window - of_nat w))
                  (filter tap_in_range (map (loop_tap seed) [0..<max_delay]))) ws)) st"
proof (induction ws arbitrary: st)
  case Nil
  show ?case by simp
next
  case (Cons w ws)
  show ?case
    by (simp add: Cons.IH taps_first_valid first_valid_append Let_def
        split: prod.splits sum.splits option.splits)
qed

lemma upt_0_14: "[0..<14] = [0, 1, 2, 3, 4, 5, 6, 7, 8, 9, 10, 11, 12, 13]"
  by (simp add: upt_conv_Cons)

lemma loop_taps: "map (loop_tap seed) [0..<14] = map (\<lambda>i. seed + tap_offset i) [0..<14]"
  by (simp add: upt_0_14 loop_tap_def tap_offset_def)

lemma upt_0_4: "[0..<4] = [0, 1, 2, 3]"
  by (simp add: upt_conv_Cons)

lemma tune_sync_delay_unfold:
  "tune_sync_delay self seed st =
    (case tune_sync_delay_windows self seed 14 4 1 [0, 1, 2, 3] st of
       (Inr (Some r), st') \<Rightarrow> (Inr r, st')
     | (Inr None, st') \<Rightarrow> (Inl NoValidWindow, st')
     | (Inl e, st') \<Rightarrow> (Inl e, st'))"
proof -
  have n: "(14::nat) div 4 + 1 - 1 + 1 = 4" by simp
  have w: "(of_nat ((14::nat) div 4 + 1) :: int32) = 4" by simp
  have m: "(of_nat (1::nat) :: int32) = 1" by simp
  show ?thesis
    unfolding tune_sync_delay_def Let_def n w m upt_0_4 by (rule refl)
qed

lemma code_order:
  "concat (map (\<lambda>w. map (\<lambda>d. (d, 4 - of_nat w))
             (filter tap_in_range (map (loop_tap seed) [0..<14]))) [0, 1, 2, 3]) =
   scan_order seed"
  by (simp add: scan_order_def scan_taps_def loop_taps)

lemma tune_sync_delay_refines:
  "tune_sync_delay self seed st = tune_sync_delay_spec self seed st"
  by (simp only: tune_sync_delay_unfold windows_first_valid code_order tune_sync_delay_spec_def)

lemma scan_taps_explicit:
  "scan_taps seed = filter tap_in_range
     [seed, seed - 1, seed + 1, seed - 2, seed + 2, seed - 3, seed + 3, seed - 4, seed + 4,
      seed - 5, seed + 5, seed - 6, seed + 6, seed - 7]"
  by (simp add: scan_taps_def upt_0_14 tap_offset_def)

lemma scan_order_explicit:
  "scan_order seed =
     map (\<lambda>d. (d, 4)) (scan_taps seed) @ map (\<lambda>d. (d, 3)) (scan_taps seed) @
     map (\<lambda>d. (d, 2)) (scan_taps seed) @ map (\<lambda>d. (d, 1)) (scan_taps seed)"
  by (simp add: scan_order_def)

lemma set_sync_word:
  "set_sync self d w st = write32 self AD9910_REG_MSYNC (sync_word d w) st"
  by (simp add: set_sync_def sync_word_def)

lemma probe_smp_err_events:
  "\<exists>t1 t2. trace (snd (probe_smp_err self d w st)) = trace st @
      write32_events self AD9910_REG_MSYNC (sync_word d w) @
      write32_events self AD9910_REG_CFR2 0x01010020 @ [IoUpdate t1 (us_to_mu (cpld self) 1)] @
      write32_events self AD9910_REG_CFR2 0x01010000 @ [IoUpdate t2 (us_to_mu (cpld self) 1)] @
      [StaRead]"
  by (simp add: probe_smp_err_def set_sync_word clear_smp_err_def sta_read_def delay_us_def
      io_update_pulse_us_def Let_def split_def)

lemma settle_sync_events:
  "\<exists>t1 t2. trace (settle_sync self d w st) = trace st @
      write32_events self AD9910_REG_MSYNC (sync_word d w) @
      write32_events self AD9910_REG_CFR2 0x01010020 @ [IoUpdate t1 (us_to_mu (cpld self) 1)] @
      write32_events self AD9910_REG_CFR2 0x01010000 @ [IoUpdate t2 (us_to_mu (cpld self) 1)]"
  by (simp add: settle_sync_def set_sync_word clear_smp_err_def delay_us_def
      io_update_pulse_us_def Let_def)

lemma reg_trace_probe:
  "reg_trace (write32_events self AD9910_REG_MSYNC data @
      write32_events self AD9910_REG_CFR2 0x01010020 @ [IoUpdate t1 p] @
      write32_events self AD9910_REG_CFR2 0x01010000 @ [IoUpdate t2 p] @ [StaRead]) =
    [RegWrite32 AD9910_REG_MSYNC data, RegWrite32 AD9910_REG_CFR2 0x01010020,
     UpdatePulse t1 p, RegWrite32 AD9910_REG_CFR2 0x01010000, UpdatePulse t2 p, StatusRead]"
  by (simp add: reg_trace_def write32_events_def AD9910_REG_MSYNC_def AD9910_REG_CFR2_def)

lemma reg_trace_settle:
  "reg_trace (write32_events self AD9910_REG_MSYNC data @
      write32_events self AD9910_REG_CFR2 0x01010020 @ [IoUpdate t1 p] @
      write32_events self AD9910_REG_CFR2 0x01010000 @ [IoUpdate t2 p]) =
    [RegWrite32 AD9910_REG_MSYNC data, RegWrite32 AD9910_REG_CFR2 0x01010020,
     UpdatePulse t1 p, RegWrite32 AD9910_REG_CFR2 0x01010000, UpdatePulse t2 p]"
  by (simp add: reg_trace_def write32_events_def AD9910_REG_MSYNC_def AD9910_REG_CFR2_def)

lemma probe_smp_err_regs:
  "\<exists>t1 t2. reg_trace (emitted st (snd (probe_smp_err self d w st))) =
    [RegWrite32 AD9910_REG_MSYNC (sync_word d w), RegWrite32 AD9910_REG_CFR2 0x01010020,
     UpdatePulse t1 (us_to_mu (cpld self) 1), RegWrite32 AD9910_REG_CFR2 0x01010000,
     UpdatePulse t2 (us_to_mu (cpld self) 1), StatusRead]"
proof -
  obtain t1 t2 where "trace (snd (probe_smp_err self d w st)) = trace st @
      (write32_events self AD9910_REG_MSYNC (sync_word d w) @
      write32_events self AD9910_REG_CFR2 0x01010020 @ [IoUpdate t1 (us_to_mu (cpld self) 1)] @
      write32_events self AD9910_REG_CFR2 0x01010000 @ [IoUpdate t2 (us_to_mu (cpld self) 1)] @
      [StaRead])"
    using probe_smp_err_events [of self d w st] by auto
  then have "emitted st (snd (probe_smp_err self d w st)) =
      write32_events self AD9910_REG_MSYNC (sync_word d w) @
      write32_events self AD9910_REG_CFR2 0x01010020 @ [IoUpdate t1 (us_to_mu (cpld self) 1)] @
      write32_events self AD9910_REG_CFR2 0x01010000 @ [IoUpdate t2 (us_to_mu (cpld self) 1)] @
      [StaRead]"
    by (rule emitted_append)
  then show ?thesis by (simp only: reg_trace_probe) blast
qed

lemma settle_sync_regs:
  "\<exists>t1 t2. reg_trace (emitted st (settle_sync self d w st)) =
    [RegWrite32 AD9910_REG_MSYNC (sync_word d w), RegWrite32 AD9910_REG_CFR2 0x01010020,
     UpdatePulse t1 (us_to_mu (cpld self) 1), RegWrite32 AD9910_REG_CFR2 0x01010000,
     UpdatePulse t2 (us_to_mu (cpld self) 1)]"
proof -
  obtain t1 t2 where "trace (settle_sync self d w st) = trace st @
      (write32_events self AD9910_REG_MSYNC (sync_word d w) @
      write32_events self AD9910_REG_CFR2 0x01010020 @ [IoUpdate t1 (us_to_mu (cpld self) 1)] @
      write32_events self AD9910_REG_CFR2 0x01010000 @ [IoUpdate t2 (us_to_mu (cpld self) 1)])"
    using settle_sync_events [of self d w st] by auto
  then have "emitted st (settle_sync self d w st) =
      write32_events self AD9910_REG_MSYNC (sync_word d w) @
      write32_events self AD9910_REG_CFR2 0x01010020 @ [IoUpdate t1 (us_to_mu (cpld self) 1)] @
      write32_events self AD9910_REG_CFR2 0x01010000 @ [IoUpdate t2 (us_to_mu (cpld self) 1)]"
    by (rule emitted_append)
  then show ?thesis by (simp only: reg_trace_settle) blast
qed

lemma sta_reads_Nil [simp]: "sta_reads [] = 0"
  by (simp add: sta_reads_def)

lemma sta_reads_Cons [simp]:
  "sta_reads (e # es) = (if e = StaRead then 1 else 0) + sta_reads es"
  by (simp add: sta_reads_def)

lemma sta_reads_append [simp]: "sta_reads (xs @ ys) = sta_reads xs + sta_reads ys"
  by (simp add: sta_reads_def)

lemma sta_reads_write32 [simp]: "sta_reads (write32_events self a d) = 0"
  by (simp add: write32_events_def)

lemma probe_smp_err_trace:
  "\<exists>es. trace (snd (probe_smp_err self d w st)) = trace st @ es \<and> sta_reads es = 1"
proof -
  obtain t1 t2 where "trace (snd (probe_smp_err self d w st)) = trace st @
      (write32_events self AD9910_REG_MSYNC (sync_word d w) @
      write32_events self AD9910_REG_CFR2 0x01010020 @ [IoUpdate t1 (us_to_mu (cpld self) 1)] @
      write32_events self AD9910_REG_CFR2 0x01010000 @ [IoUpdate t2 (us_to_mu (cpld self) 1)] @
      [StaRead])"
    using probe_smp_err_events [of self d w st] by auto
  then show ?thesis by (intro exI conjI, assumption) simp
qed





lemma tune_sync_delay_spec_fst:
  "fst (tune_sync_delay_spec self seed st) =
    (case fst (first_valid self (scan_order seed) st) of
       Inr (Some r) \<Rightarrow> Inr r | Inr None \<Rightarrow> Inl NoValidWindow | Inl e \<Rightarrow> Inl e)"
  by (simp add: tune_sync_delay_spec_def split: prod.splits sum.splits option.splits)

lemma first_valid_find:
  "\<forall>d w s. fst (probe_smp_err self d w s) = Inr (errf d w) \<Longrightarrow>
   fst (first_valid self ps st) =
     Inr (map_option (\<lambda>(d, w). (d, w - 1)) (find (\<lambda>(d, w). \<not> errf d w) ps))"
proof (induction ps arbitrary: st)
  case Nil
  show ?case by simp
next
  case (Cons p ps)
  obtain d w where p: "p = (d, w)" by (cases p)
  obtain r s1 where r: "probe_smp_err self d w st = (r, s1)"
    by (cases "probe_smp_err self d w st")
  from Cons.prems have "fst (probe_smp_err self d w st) = Inr (errf d w)" by blast
  then have r': "r = Inr (errf d w)" by (simp add: r)
  show ?case
    by (simp add: p r r' Cons.IH [OF Cons.prems])
qed


lemma first_valid_returns:
  "fst (first_valid self ps st) = Inr (Some (d, w')) \<Longrightarrow>
   \<exists>s pre. trace s = trace st @ pre \<and> (d, w' + 1) \<in> set ps \<and>
     fst (probe_smp_err self d (w' + 1) s) = Inr False \<and>
     snd (first_valid self ps st) =
       settle_sync self d w' (snd (probe_smp_err self d (w' + 1) s))"
proof (induction ps arbitrary: st)
  case Nil
  then show ?case by simp
next
  case (Cons p ps)
  obtain d0 w0 where p: "p = (d0, w0)" by (cases p)
  obtain r s1 where r: "probe_smp_err self d0 w0 st = (r, s1)"
    by (cases "probe_smp_err self d0 w0 st")
  obtain e1 where e1: "trace s1 = trace st @ e1"
    using probe_smp_err_trace [of self d0 w0 st] by (auto simp: r)
  show ?case
  proof (cases r)
    case (Inl e)
    with Cons.prems show ?thesis by (simp add: p r)
  next
    case (Inr err)
    show ?thesis
    proof (cases err)
      case True
      with Cons.prems have "fst (first_valid self ps s1) = Inr (Some (d, w'))"
        by (simp add: p r Inr)
      from Cons.IH [OF this] obtain s pre where
        s: "trace s = trace s1 @ pre" "(d, w' + 1) \<in> set ps"
          "fst (probe_smp_err self d (w' + 1) s) = Inr False"
          "snd (first_valid self ps s1) =
             settle_sync self d w' (snd (probe_smp_err self d (w' + 1) s))"
        by blast
      have "trace s = trace st @ (e1 @ pre)" using s(1) e1 by simp
      moreover have "(d, w' + 1) \<in> set (p # ps)" using s(2) by simp
      moreover have "snd (first_valid self (p # ps) st) =
          settle_sync self d w' (snd (probe_smp_err self d (w' + 1) s))"
        using s(4) by (simp add: p r Inr True)
      ultimately show ?thesis using s(3) by blast
    next
      case False
      with Cons.prems have dw: "d0 = d" "w0 - 1 = w'"
        by (simp_all add: p r Inr)
      then have w0: "w0 = w' + 1" by auto
      have "trace st = trace st @ []" by simp
      moreover have "(d, w' + 1) \<in> set (p # ps)" by (simp add: p dw w0)
      moreover have "fst (probe_smp_err self d (w' + 1) st) = Inr False"
        using r Inr False by (simp add: dw(1) [symmetric] w0 [symmetric])
      moreover have "snd (first_valid self (p # ps) st) =
          settle_sync self d w' (snd (probe_smp_err self d (w' + 1) st))"
        using r Inr False dw(2) by (simp add: p dw(1) [symmetric] w0 [symmetric])
      ultimately show ?thesis by blast
    qed
  qed
qed

lemma demo_chip_select: "chip_select demo_channel = 4"
  by (simp add: demo_channel_def)


lemma sync_chip_select: "chip_select (sync_channel ok) = 4"
  by (simp add: sync_channel_def demo_channel_def)

lemma probe_flag:
  "4 \<le> chip_select self \<Longrightarrow> \<exists>flag. fst (probe_smp_err self d w s) = Inr flag"
  by (simp add: probe_smp_err_def smp_err_flag_def Let_def split_def)

lemma probe_shift_error:
  "chip_select self < 4 \<Longrightarrow> probe_smp_err self d w s =
     (Inl ShiftCountError, snd (probe_smp_err self d w s))"
  by (simp add: probe_smp_err_def smp_err_flag_def Let_def split_def)


lemma sync_probe:
  "fst (probe_smp_err (sync_channel ok) d w s) = Inr (\<not> sync_ok_word ok (sync_word d w))"
  by (simp add: probe_smp_err_def set_sync_word clear_smp_err_def sta_read_def
      smp_err_flag_def io_update_pulse_us_def Let_def split_def
      sync_channel_def sync_extern_def demo_channel_def demo_extern_def
      write32_events_def AD9910_REG_MSYNC_def AD9910_REG_CFR2_def)

lemma scan_order_1:
  "scan_order 1 =
     map (\<lambda>d. (d, 4)) [1, 0, 2, 3, 4, 5, 6, 7] @ map (\<lambda>d. (d, 3)) [1, 0, 2, 3, 4, 5, 6, 7] @
     map (\<lambda>d. (d, 2)) [1, 0, 2, 3, 4, 5, 6, 7] @ map (\<lambda>d. (d, 1)) [1, 0, 2, 3, 4, 5, 6, 7]"
  by (simp add: scan_order_explicit scan_taps_explicit tap_in_range_def)

lemma scan_order_31_head: "\<exists>ps. scan_order 31 = (31, 4) # (30, 4) # (29, 4) # ps"
  by (simp add: scan_order_explicit scan_taps_explicit tap_in_range_def)

lemma scan_order_9_head: "\<exists>ps. scan_order 9 = (9, 4) # ps"
  by (simp add: scan_order_explicit scan_taps_explicit tap_in_range_def)

lemma tune_sync_delay_find:
  assumes "\<forall>d w s. fst (probe_smp_err self d w s) = Inr (errf d w)"
  shows "fst (tune_sync_delay self seed st) =
    (case find (\<lambda>(d, w). \<not> errf d w) (scan_order seed) of
       None \<Rightarrow> Inl NoValidWindow
     | Some (d, w) \<Rightarrow> Inr (d, w - 1))"
  by (simp add: tune_sync_delay_refines tune_sync_delay_spec_fst first_valid_find [OF assms]
      split: option.splits)

lemma tune_sync_delay_spec_snd:
  "snd (tune_sync_delay_spec self seed st) = snd (first_valid self (scan_order seed) st)"
  by (simp add: tune_sync_delay_spec_def split: prod.splits sum.splits option.splits)

lemma tune_sync_delay_returns:
  assumes "fst (tune_sync_delay self seed st) = Inr (d, w')"
  shows "\<exists>s pre. trace s = trace st @ pre \<and> (d, w' + 1) \<in> set (scan_order seed) \<and>
     fst (probe_smp_err self d (w' + 1) s) = Inr False \<and>
     snd (tune_sync_delay self seed st) =
       settle_sync self d w' (snd (probe_smp_err self d (w' + 1) s))"
proof -
  from assms have "fst (first_valid self (scan_order seed) st) = Inr (Some (d, w'))"
    by (simp add: tune_sync_delay_refines tune_sync_delay_spec_fst
        split: sum.splits option.splits)
  from first_valid_returns [OF this]
  show ?thesis
    by (simp only: tune_sync_delay_refines tune_sync_delay_spec_snd)
qed

lemma tune_sync_delay_shift_error:
  assumes "chip_select self < 4" and "scan_order seed = (d, w) # ps"
  shows "fst (tune_sync_delay self seed st) = Inl ShiftCountError \<and>
         snd (tune_sync_delay self seed st) = snd (probe_smp_err self d w st)"
proof -
  obtain r s1 where r: "probe_smp_err self d w st = (r, s1)"
    by (cases "probe_smp_err self d w st")
  with probe_shift_error [OF assms(1), of d w st] have "r = Inl ShiftCountError"
    by simp
  with r have "first_valid self (scan_order seed) st = (Inl ShiftCountError, s1)"
    by (simp add: assms(2))
  then show ?thesis
    by (simp add: tune_sync_delay_refines tune_sync_delay_spec_fst tune_sync_delay_spec_snd r)
qed

lemma demo3_chip_select: "chip_select demo3_channel = 3"
  by (simp add: demo3_channel_def)


lemma py_round_one: "py_round 1 = 1"
  by (simp add: py_round_def)

lemma AD9910_init_demo3:
  "fst (AD9910_init demo_extern 3 32 7 5 (- 1) 0 demo_state) = Inr demo3_channel"
  by (simp add: AD9910_init_def demo_extern_def demo3_channel_def demo_channel_def
      vco_table_def py_round_one Let_def)


text \<open>
  Claim C6 says that the call returns the tap of the first pair whose error
  flag is clear, with the decreased window. The constructor accepts
  \<open>chip_select = 3\<close>; on that channel, with every flag clear, the call
  does not return \<open>(9, 3)\<close> for the seed 9: the shift by
  \<open>chip_select - 4 = -1\<close> raises at the first probe.
\<close>
theorem tune_sync_delay_chip_select_3_counterexample:
  "fst (AD9910_init demo_extern 3 32 7 5 (- 1) 0 demo_state) = Inr demo3_channel \<and>
   chip_select demo3_channel = 3 \<and>
   urukul_sta_smp_err (cpld demo3_channel) (sta_read_val (cpld demo3_channel) []) = 0 \<and>
   fst (tune_sync_delay demo3_channel 9 demo_state) = Inl ShiftCountError \<and>
   fst (tune_sync_delay demo3_channel 9 demo_state) \<noteq> Inr (9, 3)"
proof -
  obtain ps where ps: "scan_order 9 = (9, 4) # ps"
    using scan_order_9_head by blast
  have "chip_select demo3_channel < 4" by (simp add: demo3_chip_select)
  from tune_sync_delay_shift_error [OF this ps]
  have "fst (tune_sync_delay demo3_channel 9 demo_state) = Inl ShiftCountError"
    by simp
  then show ?thesis
    by (simp add: AD9910_init_demo3 demo3_chip_select)
       (simp add: demo3_channel_def demo_channel_def demo_extern_def)
qed

text \<open>
  Claim C6, amended. On an individual channel (\<open>chip_select \<ge> 4\<close>)
  \<open>tune_sync_delay\<close> is the search of the specification: windows 4, 3, 2,
  1 in this order, for each window the taps \<open>seed, seed-1, seed+1, seed-2,
  seed+2, \<dots>, seed-7\<close> that lie in \<open>[0,31]\<close>. Every probe writes the sync
  register with the tap and the window, clears and re-enables the error
  state with two CFR2 writes, each followed by an update pulse, and reads
  the status word, and it yields a flag. When the call returns \<open>(d, w')\<close>,
  the pair \<open>(d, w' + 1)\<close> is in the order, its probe showed the flag
  clear, and the last operations of the call are those of that probe
  followed by the sync register written again with \<open>d\<close> and \<open>w'\<close> and the
  error state cleared again. For a device whose flag is a function of the
  tap and the window, the call returns the first pair of the order with a
  clear flag, with the window decreased by one, and fails with "no valid
  window/delay" when there is none.
\<close>
theorem tune_sync_delay_follows_scan_order:
  assumes "4 \<le> chip_select self"
  shows "tune_sync_delay self seed st = tune_sync_delay_spec self seed st \<and>
    scan_order seed =
      map (\<lambda>d. (d, 4)) (scan_taps seed) @ map (\<lambda>d. (d, 3)) (scan_taps seed) @
      map (\<lambda>d. (d, 2)) (scan_taps seed) @ map (\<lambda>d. (d, 1)) (scan_taps seed) \<and>
    scan_taps seed = filter tap_in_range
      [seed, seed - 1, seed + 1, seed - 2, seed + 2, seed - 3, seed + 3, seed - 4,
       seed + 4, seed - 5, seed + 5, seed - 6, seed + 6, seed - 7] \<and>
    (\<forall>d w s. \<exists>flag t1 t2.
       fst (probe_smp_err self d w s) = Inr flag \<and>
       reg_trace (emitted s (snd (probe_smp_err self d w s))) =
         [RegWrite32 AD9910_REG_MSYNC (sync_word d w), RegWrite32 AD9910_REG_CFR2 0x01010020,
          UpdatePulse t1 (us_to_mu (cpld self) 1), RegWrite32 AD9910_REG_CFR2 0x01010000,
          UpdatePulse t2 (us_to_mu (cpld self) 1), StatusRead]) \<and>
    (\<forall>d w s. \<exists>t1 t2.
       reg_trace (emitted s (settle_sync self d w s)) =
         [RegWrite32 AD9910_REG_MSYNC (sync_word d w), RegWrite32 AD9910_REG_CFR2 0x01010020,
          UpdatePulse t1 (us_to_mu (cpld self) 1), RegWrite32 AD9910_REG_CFR2 0x01010000,
          UpdatePulse t2 (us_to_mu (cpld self) 1)]) \<and>
    (\<forall>d w'. fst (tune_sync_delay self seed st) = Inr (d, w') \<longrightarrow>
       (\<exists>s pre. trace s = trace st @ pre \<and> (d, w' + 1) \<in> set (scan_order seed) \<and>
          fst (probe_smp_err self d (w' + 1) s) = Inr False \<and>
          snd (tune_sync_delay self seed st) =
            settle_sync self d w' (snd (probe_smp_err self d (w' + 1) s)))) \<and>
    (\<forall>errf. (\<forall>d w s. fst (probe_smp_err self d w s) = Inr (errf d w)) \<longrightarrow>
       fst (tune_sync_delay self seed st) =
         (case find (\<lambda>(d, w). \<not> errf d w) (scan_order seed) of
            None \<Rightarrow> Inl NoValidWindow
          | Some (d, w) \<Rightarrow> Inr (d, w - 1)))"
proof (intro conjI allI impI)
  show "tune_sync_delay self seed st = tune_sync_delay_spec self seed st"
    by (rule tune_sync_delay_refines)
next
  show "scan_order seed =
      map (\<lambda>d. (d, 4)) (scan_taps seed) @ map (\<lambda>d. (d, 3)) (scan_taps seed) @
      map (\<lambda>d. (d, 2)) (scan_taps seed) @ map (\<lambda>d. (d, 1)) (scan_taps seed)"
    by (rule scan_order_explicit)
next
  show "scan_taps seed = filter tap_in_range
      [seed, seed - 1, seed + 1, seed - 2, seed + 2, seed - 3, seed + 3, seed - 4,
       seed + 4, seed - 5, seed + 5, seed - 6, seed + 6, seed - 7]"
    by (rule scan_taps_explicit)
next
  fix d w s
  from probe_flag [OF assms, of d w s] probe_smp_err_regs [of s self d w]
  show "\<exists>flag t1 t2.
       fst (probe_smp_err self d w s) = Inr flag \<and>
       reg_trace (emitted s (snd (probe_smp_err self d w s))) =
         [RegWrite32 AD9910_REG_MSYNC (sync_word d w), RegWrite32 AD9910_REG_CFR2 0x01010020,
          UpdatePulse t1 (us_to_mu (cpld self) 1), RegWrite32 AD9910_REG_CFR2 0x01010000,
          UpdatePulse t2 (us_to_mu (cpld self) 1), StatusRead]"
    by blast
next
  fix d w s
  show "\<exists>t1 t2.
       reg_trace (emitted s (settle_sync self d w s)) =
         [RegWrite32 AD9910_REG_MSYNC (sync_word d w), RegWrite32 AD9910_REG_CFR2 0x01010020,
          UpdatePulse t1 (us_to_mu (cpld self) 1), RegWrite32 AD9910_REG_CFR2 0x01010000,
          UpdatePulse t2 (us_to_mu (cpld self) 1)]"
    by (rule settle_sync_regs)
next
  fix d w'
  assume "fst (tune_sync_delay self seed st) = Inr (d, w')"
  then show "\<exists>s pre. trace s = trace st @ pre \<and> (d, w' + 1) \<in> set (scan_order seed) \<and>
          fst (probe_smp_err self d (w' + 1) s) = Inr False \<and>
          snd (tune_sync_delay self seed st) =
            settle_sync self d w' (snd (probe_smp_err self d (w' + 1) s))"
    by (rule tune_sync_delay_returns)
next
  fix errf
  assume "\<forall>d w s. fst (probe_smp_err self d w s) = Inr (errf d w)"
  then show "fst (tune_sync_delay self seed st) =
         (case find (\<lambda>(d, w). \<not> errf d w) (scan_order seed) of
            None \<Rightarrow> Inl NoValidWindow
          | Some (d, w) \<Rightarrow> Inr (d, w - 1))"
    by (rule tune_sync_delay_find)
qed

theorem tune_sync_delay_follows_scan_order_witness:
  "(4::int) \<le> chip_select (sync_channel narrow_ok) \<and>
   (4::int) \<le> chip_select (sync_channel edge_ok) \<and>
   fst (tune_sync_delay (sync_channel narrow_ok) 1 demo_state) = Inr (0, 2) \<and>
   fst (tune_sync_delay (sync_channel edge_ok) 31 demo_state) = Inr (29, 3)"
proof -
  have cs: "4 \<le> chip_select (sync_channel ok)" for ok
    by (simp add: sync_chip_select)
  have p: "\<forall>d w s. fst (probe_smp_err (sync_channel ok) d w s) =
             Inr (\<not> sync_ok_word ok (sync_word d w))" for ok
    by (simp add: sync_probe)
  note n = tune_sync_delay_follows_scan_order [OF cs [of narrow_ok], where seed = 1
      and st = demo_state]
  note e = tune_sync_delay_follows_scan_order [OF cs [of edge_ok], where seed = 31
      and st = demo_state]
  from n have "\<forall>errf. (\<forall>d w s. fst (probe_smp_err (sync_channel narrow_ok) d w s) =
        Inr (errf d w)) \<longrightarrow>
       fst (tune_sync_delay (sync_channel narrow_ok) 1 demo_state) =
         (case find (\<lambda>(d, w). \<not> errf d w) (scan_order 1) of
            None \<Rightarrow> Inl NoValidWindow
          | Some (d, w) \<Rightarrow> Inr (d, w - 1))"
    by (elim conjE)
  from this [rule_format, OF p [of narrow_ok, rule_format]]
  have "fst (tune_sync_delay (sync_channel narrow_ok) 1 demo_state) =
         (case find (\<lambda>(d, w). \<not> \<not> sync_ok_word narrow_ok (sync_word d w)) (scan_order 1) of
            None \<Rightarrow> Inl NoValidWindow
          | Some (d, w) \<Rightarrow> Inr (d, w - 1))" .
  then have a: "fst (tune_sync_delay (sync_channel narrow_ok) 1 demo_state) = Inr (0, 2)"
    by (simp add: scan_order_1 sync_ok_word_def sync_word_def narrow_ok_def)
  obtain ps where ps: "scan_order 31 = (31, 4) # (30, 4) # (29, 4) # ps"
    using scan_order_31_head by blast
  from e have "\<forall>errf. (\<forall>d w s. fst (probe_smp_err (sync_channel edge_ok) d w s) =
        Inr (errf d w)) \<longrightarrow>
       fst (tune_sync_delay (sync_channel edge_ok) 31 demo_state) =
         (case find (\<lambda>(d, w). \<not> errf d w) (scan_order 31) of
            None \<Rightarrow> Inl NoValidWindow
          | Some (d, w) \<Rightarrow> Inr (d, w - 1))"
    by (elim conjE)
  from this [rule_format, OF p [of edge_ok, rule_format]]
  have "fst (tune_sync_delay (sync_channel edge_ok) 31 demo_state) =
         (case find (\<lambda>(d, w). \<not> \<not> sync_ok_word edge_ok (sync_word d w)) (scan_order 31) of
            None \<Rightarrow> Inl NoValidWindow
          | Some (d, w) \<Rightarrow> Inr (d, w - 1))" .
  then have b: "fst (tune_sync_delay (sync_channel edge_ok) 31 demo_state) = Inr (29, 3)"
    by (simp add: ps sync_ok_word_def sync_word_def edge_ok_def)
  from a b show ?thesis by (simp add: sync_chip_select)
qed

text \<open>What the skipping decides: tap 32 would read as valid on this device.\<close>

lemma edge_ok_tap_32: "sync_ok_word edge_ok (sync_word 32 4)"
  by (simp add: sync_ok_word_def sync_word_def edge_ok_def)




subsection \<open>Construction\<close>

lemma py_round_inexact: "p \<notin> \<int> \<Longrightarrow> of_int (py_round p) \<noteq> p"
  by (metis Ints_of_int)

lemma AD9910_init_outcome:
  "(fst (AD9910_init x cs n cp vco seed iod st) = Inl AssertionError \<and>
    snd (AD9910_init x cs n cp vco seed iod st) = st) \<or>
   (fst (AD9910_init x cs n cp vco seed iod st) = Inl ZeroDivisionError \<and>
    snd (AD9910_init x cs n cp vco seed iod st) = st \<and>
    fdiv x (fmul x (refclk x) (of_int n)) 4 = 0) \<or>
   (\<exists>c. fst (AD9910_init x cs n cp vco seed iod st) = Inr c)"
  by (simp add: AD9910_init_def Let_def split_def)

lemma AD9910_init_accepts:
  assumes "fst (AD9910_init x cs n cp vco seed iod st) = Inr c"
  shows "12 \<le> n \<and> n \<le> 127 \<and>
     fdiv x (refclk x) 4 \<le> 60000000 \<and>
     fdiv x (fmul x (refclk x) (of_int n)) 4 \<le> 1000000000 \<and>
     0 \<le> vco \<and> vco \<le> 5 \<and>
     fst (vco_table ! nat vco) \<le> fdiv x (fdiv x (fmul x (refclk x) (of_int n)) 4) 1000000 \<and>
     fdiv x (fdiv x (fmul x (refclk x) (of_int n)) 4) 1000000 \<le> snd (vco_table ! nat vco) \<and>
     of_int (py_round (fmul x (fdiv x (fmul x (refclk x) (of_int n)) 4) (ref_period x))) =
       fmul x (fdiv x (fmul x (refclk x) (of_int n)) 4) (ref_period x)"
proof (rule ccontr)
  assume "\<not> ?thesis"
  then have "isl (fst (AD9910_init x cs n cp vco seed iod st))"
    by (auto simp add: AD9910_init_def Let_def split_def)
  with assms show False by simp
qed


lemma emitted_same: "emitted st st = []"
  by (simp add: emitted_def)

text \<open>The concrete channel is what the constructor builds from its device.\<close>

lemma py_round_1: "py_round 1 = 1"
  by (simp add: py_round_def)

lemma AD9910_init_demo:
  "AD9910_init demo_extern 4 32 7 5 (- 1) 0 demo_state =
     (Inr demo_channel, demo_state\<lparr>phase_mode := PHASE_MODE_CONTINUOUS\<rparr>)"
  by (simp add: AD9910_init_def demo_extern_def demo_channel_def vco_table_def py_round_1 Let_def)

text \<open>
  Claim C9. Construction fails, with the state and so the recorded bus
  trace unchanged, for a PLL multiplier outside \<open>[12,127]\<close>, for
  \<open>refclk/4\<close> above 60 MHz, for a system clock above 1 GHz, for a VCO
  selector outside \<open>[0,5]\<close> or a system clock outside the selected band,
  and for a product \<open>sysclk * ref_period\<close> that is not an integer. The
  failure is the \<open>AssertionError\<close> of an \<open>assert\<close>; only a computed system
  clock of exactly zero that passes the earlier checks fails in
  \<open>(1 << 32)/sysclk\<close> with \<open>ZeroDivisionError\<close> instead. The products and
  quotients are those of the host's floating point arithmetic, whatever it
  rounds to.
\<close>
theorem AD9910_init_rejects:
  assumes "n < 12 \<or> 127 < n \<or>
     60000000 < fdiv x (refclk x) 4 \<or>
     1000000000 < fdiv x (fmul x (refclk x) (of_int n)) 4 \<or>
     vco < 0 \<or> 5 < vco \<or>
     fdiv x (fdiv x (fmul x (refclk x) (of_int n)) 4) 1000000 < fst (vco_table ! nat vco) \<or>
     snd (vco_table ! nat vco) < fdiv x (fdiv x (fmul x (refclk x) (of_int n)) 4) 1000000 \<or>
     fmul x (fdiv x (fmul x (refclk x) (of_int n)) 4) (ref_period x) \<notin> \<int>"
  shows "(fst (AD9910_init x cs n cp vco seed iod st) = Inl AssertionError \<or>
          fst (AD9910_init x cs n cp vco seed iod st) = Inl ZeroDivisionError \<and>
          fdiv x (fmul x (refclk x) (of_int n)) 4 = 0) \<and>
         snd (AD9910_init x cs n cp vco seed iod st) = st \<and>
         emitted st (snd (AD9910_init x cs n cp vco seed iod st)) = []"
proof -
  have no: "fst (AD9910_init x cs n cp vco seed iod st) \<noteq> Inr c" for c
  proof
    assume "fst (AD9910_init x cs n cp vco seed iod st) = Inr c"
    from AD9910_init_accepts [OF this] assms
      py_round_inexact [of "fmul x (fdiv x (fmul x (refclk x) (of_int n)) 4) (ref_period x)"]
    show False by linarith
  qed
  with AD9910_init_outcome [of x cs n cp vco seed iod st]
  have "(fst (AD9910_init x cs n cp vco seed iod st) = Inl AssertionError \<or>
          fst (AD9910_init x cs n cp vco seed iod st) = Inl ZeroDivisionError \<and>
          fdiv x (fmul x (refclk x) (of_int n)) 4 = 0) \<and>
         snd (AD9910_init x cs n cp vco seed iod st) = st"
    by blast
  then show ?thesis by (simp add: emitted_same)
qed

theorem AD9910_init_rejects_witness:
  "fst (AD9910_init demo_extern 4 11 7 5 (- 1) 0 demo_state) = Inl AssertionError \<and>
   snd (AD9910_init demo_extern 4 11 7 5 (- 1) 0 demo_state) = demo_state \<and>
   fst (AD9910_init demo_extern 4 40 7 5 (- 1) 0 demo_state) = Inl AssertionError \<and>
   fst (AD9910_init demo_extern 4 24 7 5 (- 1) 0 demo_state) = Inl AssertionError"
  using AD9910_init_rejects [where x = demo_extern and cs = 4 and n = 11 and cp = 7
      and vco = 5 and seed = "- 1" and iod = 0 and st = demo_state]
    AD9910_init_rejects [where x = demo_extern and cs = 4 and n = 40 and cp = 7
      and vco = 5 and seed = "- 1" and iod = 0 and st = demo_state]
    AD9910_init_rejects [where x = demo_extern and cs = 4 and n = 24 and cp = 7
      and vco = 5 and seed = "- 1" and iod = 0 and st = demo_state]
  by (simp add: demo_extern_def vco_table_def)

end
